theory Spec2Isabelle
  imports Complex_Main "HOL-Library.Sublist"
begin

section \<open>Data model\<close>

text \<open>
  The application keeps its products in one relational table
  (\<^verbatim>\<open>CREATE TABLE productos\<close> in \<^verbatim>\<open>init_db\<close>).  A row is a record with the columns
  of the table; the table is the list of its rows.  The column \<^verbatim>\<open>id\<close> is called
  \<open>ident\<close> here.  The two \<^verbatim>\<open>REAL\<close> columns hold Python floats; a float is modelled by
  the exact rational number it was read from, so rounding to binary64 and the
  non-finite floats are outside the model.  The column \<^verbatim>\<open>ganancia\<close> is the only one
  without \<^verbatim>\<open>NOT NULL\<close>: \<open>None\<close> is SQL \<^verbatim>\<open>NULL\<close>.
\<close>

record producto =
  ident :: int
  nombre :: string
  cantidad :: int
  stock_minimo :: int
  precio_costo :: rat
  proveedor :: string
  ganancia :: "rat option"

text \<open>
  The Flask session is a dictionary of which the code reads one key, \<^verbatim>\<open>"usuario"\<close>:
  \<open>None\<close> when the key is absent, \<open>Some u\<close> when \<^verbatim>\<open>session["usuario"] == u\<close>.
\<close>

type_synonym session = "string option"

text \<open>The request method, and the submitted form as a dictionary from field names to text.\<close>

datatype metodo = GET | POST

type_synonym form = "string \<rightharpoonup> string"

text \<open>The messages handed to \<^verbatim>\<open>flash\<close>, one constructor for each message text.\<close>

datatype aviso =
    VentaOk int string
  | ExcelInvalido
  | FaltaNombre
  | ImportacionCompletada nat nat
  | NoCoinciden
  | ActualIncorrecta
  | PasswordCambiada

text \<open>
  What a route returns: a redirect to another route (\<^verbatim>\<open>redirect(url_for(...))\<close>),
  possibly after a \<^verbatim>\<open>flash\<close>, a rendered template, or the 404 answer of \<^verbatim>\<open>editar\<close>.
\<close>

datatype respuesta =
    Redirigir string "aviso option"
  | Plantilla string
  | NoEncontrado

text \<open>
  The exceptions that the modelled code can raise: \<^verbatim>\<open>ValueError\<close> from \<^verbatim>\<open>int\<close> and
  \<^verbatim>\<open>float\<close>, the \<^verbatim>\<open>BadRequestKeyError\<close> of \<^verbatim>\<open>request.form[...]\<close> on a field that was
  not submitted, and the \<^verbatim>\<open>OverflowError\<close> of \<^verbatim>\<open>sqlite3\<close> when a statement is given an
  integer that does not fit in 64 bits.  A function that can raise returns \<open>Inl\<close> of the
  exception.
\<close>

datatype error = ValueError | BadRequestKeyError | OverflowError

text \<open>The integers that SQLite stores: 64 bits, signed.\<close>

definition en_int64 :: "int \<Rightarrow> bool" where
  "en_int64 i \<longleftrightarrow> - (2 ^ 63) \<le> i \<and> i < 2 ^ 63"

definition campo :: "form \<Rightarrow> string \<Rightarrow> error + string" where
  "campo f k = (case f k of None \<Rightarrow> Inl BadRequestKeyError | Some v \<Rightarrow> Inr v)"

text \<open>
  Sequencing: the second computation runs on the value of the first, and an exception of
  the first ends the whole.
\<close>

definition entonces :: "error + 'a \<Rightarrow> ('a \<Rightarrow> error + 'b) \<Rightarrow> error + 'b" where
  "entonces m f = (case m of Inl e \<Rightarrow> Inl e | Inr x \<Rightarrow> f x)"

text \<open>Whether a computation returns a value.\<close>

definition exito :: "error + 'a \<Rightarrow> bool" where
  "exito m = (case m of Inl e \<Rightarrow> False | Inr x \<Rightarrow> True)"

section \<open>Python text primitives\<close>

text \<open>
  Text is a list of bytes (UTF-8).  The primitives below are the library functions the
  code calls: \<^verbatim>\<open>str.strip\<close>, \<^verbatim>\<open>str.split\<close> and \<^verbatim>\<open>str.replace\<close> with a one-character
  pattern, the formatting of an \<^verbatim>\<open>int\<close>, and the literals that \<^verbatim>\<open>int\<close> and \<^verbatim>\<open>float\<close>
  read, on ASCII text.  Bytes outside ASCII are neither whitespace nor digits here.

  \<^verbatim>\<open>str.lower\<close> is not defined here: where the code calls it, the model takes it as a
  parameter.  On ASCII text it replaces each capital letter by its small letter;
  \<open>lower_ascii\<close> does that to every byte, and \<open>es_ascii\<close> tells the ASCII text.
\<close>

definition mayusculas :: string where
  "mayusculas = ''ABCDEFGHIJKLMNOPQRSTUVWXYZ''"

definition minusculas :: string where
  "minusculas = ''abcdefghijklmnopqrstuvwxyz''"

definition minuscula :: "char \<Rightarrow> char" where
  "minuscula c = (case map_of (zip mayusculas minusculas) c of Some d \<Rightarrow> d | None \<Rightarrow> c)"

definition lower_ascii :: "string \<Rightarrow> string" where
  "lower_ascii s = map minuscula s"

definition es_ascii :: "string \<Rightarrow> bool" where
  "es_ascii s \<longleftrightarrow> list_all (\<lambda>c. (of_char c :: nat) < 128) s"

text \<open>
  Two texts are equal up to the case of their letters when they have the same length
  and at each position the same character, or a capital letter and its small letter.
\<close>

definition misma_letra :: "char \<Rightarrow> char \<Rightarrow> bool" where
  "misma_letra a b \<longleftrightarrow>
     a = b \<or> (a, b) \<in> set (zip mayusculas minusculas) \<or> (b, a) \<in> set (zip mayusculas minusculas)"

definition igual_sin_caja :: "string \<Rightarrow> string \<Rightarrow> bool" where
  "igual_sin_caja v q \<longleftrightarrow> list_all2 misma_letra v q"

definition es_espacio :: "char \<Rightarrow> bool" where
  "es_espacio c \<longleftrightarrow>
     c \<in> set [CHR 0x09, CHR 0x0A, CHR 0x0B, CHR 0x0C, CHR 0x0D,
              CHR 0x1C, CHR 0x1D, CHR 0x1E, CHR 0x1F, CHR '' '']"

definition strip :: "string \<Rightarrow> string" where
  "strip s = rev (dropWhile es_espacio (rev (dropWhile es_espacio s)))"

text \<open>\<^verbatim>\<open>s.split(sep)\<close> for a one-character separator: never an empty list.\<close>

fun split_py :: "char \<Rightarrow> string \<Rightarrow> string list" where
  "split_py sep [] = [[]]"
| "split_py sep (c # cs) =
     (if c = sep then [] # split_py sep cs
      else (c # hd (split_py sep cs)) # tl (split_py sep cs))"

text \<open>\<^verbatim>\<open>s.replace(old, new)\<close> for a one-character \<^verbatim>\<open>old\<close>.\<close>

definition replace :: "char \<Rightarrow> string \<Rightarrow> string \<Rightarrow> string" where
  "replace old new s = concat (map (\<lambda>c. if c = old then new else [c]) s)"

definition es_digito :: "char \<Rightarrow> bool" where
  "es_digito c \<longleftrightarrow> c \<in> set ''0123456789''"

definition valor_digito :: "char \<Rightarrow> nat" where
  "valor_digito c = length (takeWhile (\<lambda>d. d \<noteq> c) ''0123456789'')"

definition digit_char :: "nat \<Rightarrow> char" where
  "digit_char d = ''0123456789'' ! d"

text \<open>The decimal text of a number, as \<^verbatim>\<open>str\<close> and the f-strings print an \<^verbatim>\<open>int\<close>.\<close>

fun str_nat :: "nat \<Rightarrow> string" where
  "str_nat n = (if n < 10 then [digit_char n] else str_nat (n div 10) @ [digit_char (n mod 10)])"

declare str_nat.simps [simp del]

definition str_int :: "int \<Rightarrow> string" where
  "str_int i = (if i < 0 then CHR ''-'' # str_nat (nat (- i)) else str_nat (nat i))"

text \<open>
  The grammar of numeric literals shared by \<^verbatim>\<open>int\<close> and \<^verbatim>\<open>float\<close>:
  \<^verbatim>\<open>digitpart ::= digit (["_"] digit)*\<close>, and the number its digits denote.
\<close>

fun digitpart :: "string \<Rightarrow> bool" where
  "digitpart [] = False"
| "digitpart [c] = es_digito c"
| "digitpart (c # d # cs) =
     (es_digito c \<and> (if d = CHR ''_'' then digitpart cs else digitpart (d # cs)))"

definition valor_digitos :: "string \<Rightarrow> nat" where
  "valor_digitos s = foldl (\<lambda>a c. 10 * a + valor_digito c) 0 (filter (\<lambda>c. c \<noteq> CHR ''_'') s)"

text \<open>An optional sign in front of a literal: the sign as \<open>1\<close> or \<open>-1\<close>, and the rest.\<close>

fun signo :: "string \<Rightarrow> int \<times> string" where
  "signo [] = (1, [])"
| "signo (c # cs) =
     (if c = CHR ''-'' then (- 1, cs) else if c = CHR ''+'' then (1, cs) else (1, c # cs))"

text \<open>
  \<^verbatim>\<open>int(s)\<close> on text: surrounding whitespace, an optional sign, a \<open>digitpart\<close>;
  anything else raises \<^verbatim>\<open>ValueError\<close>.
\<close>

definition py_int :: "string \<Rightarrow> error + int" where
  "py_int s =
     (let (sg, u) = signo (strip s)
      in if digitpart u then Inr (sg * int (valor_digitos u)) else Inl ValueError)"

text \<open>
  \<^verbatim>\<open>float(s)\<close> on text: surrounding whitespace, an optional sign, then
  \<^verbatim>\<open>number ::= [digitpart] "." digitpart | digitpart ["."]\<close> and an optional exponent
  \<^verbatim>\<open>("e" | "E") [sign] digitpart\<close>; anything else raises \<^verbatim>\<open>ValueError\<close>.  The value is
  the rational that the literal denotes.  The words \<^verbatim>\<open>inf\<close>, \<^verbatim>\<open>infinity\<close> and
  \<^verbatim>\<open>nan\<close>, which Python reads as the non-finite floats, have no value in the model
  and are not literals here.
\<close>

definition numero :: "string \<Rightarrow> rat option" where
  "numero m =
     (let ip = takeWhile (\<lambda>c. c \<noteq> CHR ''.'') m;
          r = dropWhile (\<lambda>c. c \<noteq> CHR ''.'') m
      in if r = [] then (if digitpart ip then Some (of_nat (valor_digitos ip)) else None)
         else
           let fp = tl r;
               fv = of_nat (valor_digitos fp) / 10 ^ length (filter es_digito fp)
           in if digitpart ip \<and> fp = [] then Some (of_nat (valor_digitos ip))
              else if digitpart ip \<and> digitpart fp then Some (of_nat (valor_digitos ip) + fv)
              else if ip = [] \<and> digitpart fp then Some fv
              else None)"

definition exponente :: "string \<Rightarrow> int option" where
  "exponente e =
     (if e = [] then Some 0
      else let (sg, d) = signo (tl e)
           in if digitpart d then Some (sg * int (valor_digitos d)) else None)"

definition py_float :: "string \<Rightarrow> error + rat" where
  "py_float s =
     (let (sg, u) = signo (strip s);
          m = takeWhile (\<lambda>c. c \<noteq> CHR ''e'' \<and> c \<noteq> CHR ''E'') u;
          e = dropWhile (\<lambda>c. c \<noteq> CHR ''e'' \<and> c \<noteq> CHR ''E'') u
      in case (numero m, exponente e) of
           (Some x, Some k) \<Rightarrow>
             Inr (of_int sg * x * (if 0 \<le> k then 10 ^ nat k else 1 / 10 ^ nat (- k)))
         | _ \<Rightarrow> Inl ValueError)"

text \<open>
  The text that \<^verbatim>\<open>float\<close> reads as a float that is not a number of the model: after
  the whitespace and the sign, one of the words \<^verbatim>\<open>inf\<close>, \<^verbatim>\<open>infinity\<close> and \<^verbatim>\<open>nan\<close>, in
  capital or small letters.
\<close>

definition no_finito :: "string \<Rightarrow> bool" where
  "no_finito s \<longleftrightarrow> lower_ascii (snd (signo (strip s))) \<in> set [''inf'', ''infinity'', ''nan'']"


section \<open>The price normalizer\<close>

text \<open>
  \<^verbatim>\<open>re.sub(r"[^0-9,\.]", "", valor)\<close> keeps the digits, the comma and the period.
\<close>

definition re_sub :: "string \<Rightarrow> string" where
  "re_sub valor = filter (\<lambda>c. es_digito c \<or> c = CHR '','' \<or> c = CHR ''.'') valor"

text \<open>
  \<^verbatim>\<open>normalizar_precio(valor)\<close>, statement by statement.  \<open>texto_precio\<close> is the text that
  reaches \<^verbatim>\<open>float\<close>; the function itself returns \<open>0\<close> for the empty text and where
  \<^verbatim>\<open>float\<close> raises \<^verbatim>\<open>ValueError\<close>.
\<close>

definition texto_precio :: "string \<Rightarrow> string" where
  "texto_precio valor =
     (let valor = strip valor;
          valor = re_sub valor;
          valor = (if count_list valor (CHR ''.'') > 1
                   then let partes = split_py (CHR ''.'') valor
                        in concat (butlast partes) @ ''.'' @ last partes
                   else valor);
          valor = (if CHR '','' \<in> set valor
                   then replace (CHR '','') ''.'' (replace (CHR ''.'') '''' valor)
                   else valor)
      in valor)"

definition normalizar_precio :: "string \<Rightarrow> error + rat" where
  "normalizar_precio valor =
     (if valor = [] then Inr 0
      else case py_float (texto_precio valor) of
             Inl ValueError \<Rightarrow> Inr 0
           | Inl e \<Rightarrow> Inl e
           | Inr x \<Rightarrow> Inr x)"

text \<open>
  The contract of the normalizer in the words of the specification.  The text before and
  after the last period; a decimal is digits with at most one period and at least one
  digit; and the five steps: the empty text is 0, every character but digits, comma and
  period is dropped, with more than one period the segments before the last are joined
  and the last is the fractional part, with a comma the periods are removed and the
  comma becomes the period, and the text is read as a decimal, 0 where it is none.
\<close>

definition antes_ultimo_punto :: "string \<Rightarrow> string" where
  "antes_ultimo_punto t = rev (tl (dropWhile (\<lambda>c. c \<noteq> CHR ''.'') (rev t)))"

definition despues_ultimo_punto :: "string \<Rightarrow> string" where
  "despues_ultimo_punto t = rev (takeWhile (\<lambda>c. c \<noteq> CHR ''.'') (rev t))"

definition valor_decimal :: "string \<Rightarrow> nat" where
  "valor_decimal s = foldl (\<lambda>a c. 10 * a + valor_digito c) 0 s"

definition decimal :: "string \<Rightarrow> rat option" where
  "decimal t =
     (let a = takeWhile (\<lambda>c. c \<noteq> CHR ''.'') t;
          r = dropWhile (\<lambda>c. c \<noteq> CHR ''.'') t
      in if r = [] then
           (if a \<noteq> [] \<and> list_all es_digito a then Some (of_nat (valor_decimal a)) else None)
         else
           let b = tl r
           in if list_all es_digito a \<and> list_all es_digito b \<and> (a \<noteq> [] \<or> b \<noteq> [])
              then Some (of_nat (valor_decimal a) + of_nat (valor_decimal b) / 10 ^ length b)
              else None)"

definition normalizar_spec :: "string \<Rightarrow> rat" where
  "normalizar_spec s =
     (if s = [] then 0
      else
        let t = filter (\<lambda>c. es_digito c \<or> c = CHR '','' \<or> c = CHR ''.'') s;
            t = (if 1 < count_list t (CHR ''.'')
                 then filter (\<lambda>c. c \<noteq> CHR ''.'') (antes_ultimo_punto t) @ ''.''
                      @ despues_ultimo_punto t
                 else t);
            t = (if CHR '','' \<in> set t
                 then map (\<lambda>c. if c = CHR '','' then CHR ''.'' else c)
                        (filter (\<lambda>c. c \<noteq> CHR ''.'') t)
                 else t)
        in case decimal t of None \<Rightarrow> 0 | Some x \<Rightarrow> x)"

section \<open>The price filter of the templates\<close>

text \<open>
  \<^verbatim>\<open>format_precio(value)\<close> prints a float with \<^verbatim>\<open>f"{value:,.2f}"\<close> and then swaps the
  comma and the period.  The format rounds to two decimals, ties to even, groups the
  integer digits in threes and keeps the sign of the value.  Python rounds the binary
  value of the float; the model rounds the rational, which gives the same digits unless
  the decimal lies within the binary64 rounding error of a tie.
\<close>

definition redondear :: "rat \<Rightarrow> nat" where
  "redondear x =
     (let f = floor x; d = x - of_int f
      in nat (if d < 1 / 2 then f else if 1 / 2 < d then f + 1
              else if even f then f else f + 1))"

fun agrupar_rev :: "string \<Rightarrow> string" where
  "agrupar_rev (a # b # c # d # ds) = a # b # c # CHR '','' # agrupar_rev (d # ds)"
| "agrupar_rev ds = ds"

definition agrupar :: "string \<Rightarrow> string" where
  "agrupar ds = rev (agrupar_rev (rev ds))"

definition formato_2f :: "rat \<Rightarrow> string" where
  "formato_2f x =
     (let c = redondear (\<bar>x\<bar> * 100)
      in (if x < 0 then ''-'' else '''') @ agrupar (str_nat (c div 100)) @ ''.''
         @ [digit_char (c mod 100 div 10), digit_char (c mod 10)])"

definition format_precio :: "rat \<Rightarrow> string" where
  "format_precio v =
     replace (CHR ''X'') ''.'' (replace (CHR ''.'') '','' (replace (CHR '','') ''X'' (formato_2f v)))"

section \<open>The product table\<close>




section \<open>Creating and editing a product\<close>




section \<open>The inventory page\<close>

text \<open>
  \<^verbatim>\<open>p["ganancia"] or 0\<close>: the stored markup, and \<open>0\<close> where it is \<^verbatim>\<open>NULL\<close> or zero.
\<close>

definition o_cero :: "rat option \<Rightarrow> rat" where
  "o_cero g = (case g of None \<Rightarrow> 0 | Some x \<Rightarrow> if x = 0 then 0 else x)"

text \<open>
  The dictionary that \<^verbatim>\<open>inventario\<close> builds for each product: the columns of the row,
  with \<^verbatim>\<open>ganancia or 0\<close> for the markup, and the derived \<^verbatim>\<open>precio_venta\<close>.
\<close>

record fila_inventario = producto +
  precio_venta :: rat

definition fila_de :: "producto \<Rightarrow> fila_inventario" where
  "fila_de p =
     \<lparr>ident = ident p, nombre = nombre p, cantidad = cantidad p,
      stock_minimo = stock_minimo p, precio_costo = precio_costo p,
      proveedor = proveedor p, ganancia = Some (o_cero (ganancia p)),
      precio_venta = precio_costo p * (1 + o_cero (ganancia p) / 100)\<rparr>"

text \<open>
  What \<^verbatim>\<open>inventario\<close> hands to the template; \<open>ganancia_total\<close> is the template variable
  \<^verbatim>\<open>ganancia\<close>.
\<close>

record contexto_inventario =
  productos :: "fila_inventario list"
  query :: string
  total_costo :: rat
  total_venta :: rat
  ganancia_total :: rat

text \<open>
  \<^verbatim>\<open>inventario()\<close>: \<open>lower\<close> is \<^verbatim>\<open>str.lower\<close>, \<open>q_arg\<close> is \<^verbatim>\<open>request.args.get("q", "")\<close> and
  \<open>productos_db\<close> is the list that \<^verbatim>\<open>obtener_productos()\<close> returns.  \<^verbatim>\<open>q in s\<close> on text is
  \<^const>\<open>sublist\<close>.
\<close>

definition inventario ::
  "(string \<Rightarrow> string) \<Rightarrow> session \<Rightarrow> string \<Rightarrow> producto list
    \<Rightarrow> respuesta + contexto_inventario" where
  "inventario lower ses q_arg productos_db =
     (if ses = None then Inl (Redirigir ''login'' None)
      else
        let q = lower q_arg;
            filas = map fila_de productos_db;
            filas = (if q \<noteq> [] then
                       filter (\<lambda>p. sublist q (lower (nombre p)) \<or> sublist q (lower (proveedor p))) filas
                     else filas);
            tc = sum_list (map (\<lambda>p. of_int (cantidad p) * precio_costo p) filas);
            tv = sum_list (map (\<lambda>p. of_int (cantidad p) * precio_venta p) filas)
        in Inr \<lparr>productos = filas, query = q, total_costo = tc, total_venta = tv,
                 ganancia_total = tv - tc\<rparr>)"

text \<open>
  The page in the words of the specification.  The markup of a product is its stored
  percentage, 0 where none is stored, and its sale price is the cost price times
  (1 + markup / 100).  A product passes the filter when the folded query is a piece of
  its folded name or of its folded supplier; on ASCII text that is: some piece of the
  name or of the supplier equals the query up to the case of the letters.
\<close>

definition markup :: "producto \<Rightarrow> rat" where
  "markup p = (case ganancia p of None \<Rightarrow> 0 | Some g \<Rightarrow> g)"

definition sale_price :: "producto \<Rightarrow> rat" where
  "sale_price p = precio_costo p * (1 + markup p / 100)"

definition pasa :: "(string \<Rightarrow> string) \<Rightarrow> string \<Rightarrow> producto \<Rightarrow> bool" where
  "pasa lower q p \<longleftrightarrow>
     sublist (lower q) (lower (nombre p)) \<or> sublist (lower q) (lower (proveedor p))"

definition coincide :: "string \<Rightarrow> producto \<Rightarrow> bool" where
  "coincide q p \<longleftrightarrow>
     (\<exists>u v w. nombre p = u @ v @ w \<and> igual_sin_caja v q)
   \<or> (\<exists>u v w. proveedor p = u @ v @ w \<and> igual_sin_caja v q)"

section \<open>The sell operation\<close>

text \<open>
  \<^verbatim>\<open>vender(nombre, cantidad)\<close> runs one statement,
  \<^verbatim>\<open>UPDATE productos SET cantidad = cantidad - ? WHERE nombre=? AND cantidad >= ?\<close>,
  which rewrites every row that satisfies the \<^verbatim>\<open>WHERE\<close> clause and no other row.
  Without a session the route redirects to the login page and touches nothing.
\<close>

definition vender :: "session \<Rightarrow> string \<Rightarrow> int \<Rightarrow> producto list \<Rightarrow> producto list \<times> respuesta" where
  "vender ses nom cant db =
     (if ses = None then (db, Redirigir ''login'' None)
      else (map (\<lambda>p. if nombre p = nom \<and> cantidad p \<ge> cant
                      then p\<lparr>cantidad := cantidad p - cant\<rparr> else p) db,
            Redirigir ''lista_precios'' (Some (VentaOk cant nom))))"

section \<open>The reorder generator\<close>

text \<open>
  An order line is the dictionary with the keys \<^verbatim>\<open>faltante\<close>, \<^verbatim>\<open>nombre\<close> and
  \<^verbatim>\<open>precio_costo\<close>.  The dictionary \<^verbatim>\<open>pedidos\<close> keeps its keys in the order in which
  they were first stored; it is an association list whose new keys go to the end.
\<close>

record linea =
  faltante :: int
  nombre_linea :: string
  costo_linea :: rat

type_synonym pedidos = "(string \<times> linea list) list"

text \<open>\<^verbatim>\<open>pedidos[prov].append(l)\<close>, for a key that is in the dictionary.\<close>

definition append_en :: "string \<Rightarrow> linea \<Rightarrow> pedidos \<Rightarrow> pedidos" where
  "append_en prov l ped = map (\<lambda>(k, ls). if k = prov then (k, ls @ [l]) else (k, ls)) ped"

text \<open>One turn of the loop of \<^verbatim>\<open>generar_pedidos\<close>.\<close>

definition pedidos_paso :: "pedidos \<Rightarrow> producto \<Rightarrow> pedidos" where
  "pedidos_paso ped p =
     (let falt = stock_minimo p - cantidad p
      in if falt > 0 then
           let prov = proveedor p;
               ped = (if prov \<notin> set (map fst ped) then ped @ [(prov, [])] else ped)
           in append_en prov
                \<lparr>faltante = falt, nombre_linea = nombre p, costo_linea = precio_costo p\<rparr> ped
         else ped)"

text \<open>
  \<^verbatim>\<open>generar_pedidos()\<close>, over the list that \<^verbatim>\<open>obtener_productos()\<close> returns.
\<close>

definition generar_pedidos :: "producto list \<Rightarrow> pedidos" where
  "generar_pedidos productos_db = foldl pedidos_paso [] productos_db"

text \<open>
  \<^verbatim>\<open>urllib.parse.quote\<close> with its default \<^verbatim>\<open>safe='/'\<close>: the bytes of the text that are
  letters, digits or one of \<^verbatim>\<open>_.-~/\<close> stay, every other byte becomes \<^verbatim>\<open>%XX\<close>.
\<close>

definition seguros :: string where
  "seguros = ''ABCDEFGHIJKLMNOPQRSTUVWXYZabcdefghijklmnopqrstuvwxyz0123456789_.-~/''"

definition hex_char :: "nat \<Rightarrow> char" where
  "hex_char d = ''0123456789ABCDEF'' ! d"

definition quote_byte :: "char \<Rightarrow> string" where
  "quote_byte c =
     (if c \<in> set seguros then [c]
      else [CHR ''%'', hex_char (of_char c div 16), hex_char (of_char c mod 16)])"

definition quote :: "string \<Rightarrow> string" where
  "quote s = concat (map quote_byte s)"

text \<open>The package emoji of the header, U+1F4E6, in UTF-8.\<close>

definition paquete :: string where
  "paquete = [CHR 0xF0, CHR 0x9F, CHR 0x93, CHR 0xA6]"

text \<open>
  \<^verbatim>\<open>generar_mensaje_whatsapp(proveedor, lista_productos)\<close>; \<open>mensaje_pedido\<close> is the text
  before it is quoted.
\<close>

definition mensaje_pedido :: "string \<Rightarrow> linea list \<Rightarrow> string" where
  "mensaje_pedido prov lista =
     foldl (\<lambda>mensaje p. mensaje @ ''- '' @ str_int (faltante p) @ '' '' @ nombre_linea p @ [CHR 0x0A])
       (paquete @ '' *Pedido para '' @ prov @ ''* '' @ paquete @ [CHR 0x0A, CHR 0x0A]) lista"

definition generar_mensaje_whatsapp :: "string \<Rightarrow> linea list \<Rightarrow> string" where
  "generar_mensaje_whatsapp prov lista = quote (mensaje_pedido prov lista)"

text \<open>
  The reading of a percent-encoded text: \<^verbatim>\<open>%XX\<close> stands for the byte with the
  hexadecimal code \<^verbatim>\<open>XX\<close>, any other byte for itself.
\<close>

definition valor_hex :: "char \<Rightarrow> nat" where
  "valor_hex c = length (takeWhile (\<lambda>d. d \<noteq> c) ''0123456789ABCDEF'')"

fun unquote :: "string \<Rightarrow> string" where
  "unquote (c # h # l # cs) =
     (if c = CHR ''%'' then char_of (valor_hex h * 16 + valor_hex l) # unquote cs
      else c # unquote (h # l # cs))"
| "unquote cs = cs"

text \<open>
  The reorder lines in the words of the specification: the products whose shortfall is
  positive, the line of such a product, and the suppliers in the order of their first
  appearance.
\<close>

definition falta :: "producto \<Rightarrow> bool" where
  "falta p \<longleftrightarrow> stock_minimo p - cantidad p > 0"

definition linea_de :: "producto \<Rightarrow> linea" where
  "linea_de p = \<lparr>faltante = stock_minimo p - cantidad p, nombre_linea = nombre p,
                 costo_linea = precio_costo p\<rparr>"

fun primeros :: "'a list \<Rightarrow> 'a list" where
  "primeros [] = []"
| "primeros (x # xs) = x # primeros (filter (\<lambda>y. y \<noteq> x) xs)"

text \<open>
  The grouping in the words of the specification: one entry for each supplier of a
  product that falls short, in the order of first appearance, with the lines of the
  products of that supplier that fall short.
\<close>

definition agrupado :: "producto list \<Rightarrow> pedidos" where
  "agrupado ps =
     map (\<lambda>prov. (prov, map linea_de (filter (\<lambda>p. proveedor p = prov) (filter falta ps))))
       (primeros (map proveedor (filter falta ps)))"

section \<open>Spreadsheet import\<close>

text \<open>
  The table that \<^verbatim>\<open>pd.read_excel\<close> returns: the header names and the rows, a row giving
  the cell under each header name.  A cell is blank (\<^verbatim>\<open>NaN\<close>, here \<open>None\<close>) or holds an
  integer, a float or text.
\<close>

datatype valor = Entero int | Flotante rat | Texto string

type_synonym celda = "valor option"

record dataframe =
  columns :: "string list"
  iterrows :: "(string \<Rightarrow> celda) list"

text \<open>The header \<^verbatim>\<open>"Stock M\<close>\<open>\<iacute>\<close>\<^verbatim>\<open>nimo"\<close>: the accented letter is two bytes in UTF-8.\<close>

definition col_stock_minimo :: string where
  "col_stock_minimo = ''Stock M'' @ [CHR 0xC3, CHR 0xAD] @ ''nimo''"

text \<open>
  \<^verbatim>\<open>df.columns = df.columns.str.strip()\<close>: afterwards a row is read under the
  stripped names.
\<close>

definition strip_columns :: "dataframe \<Rightarrow> dataframe" where
  "strip_columns df =
     \<lparr>columns = map strip (columns df),
      iterrows = map (\<lambda>row c. case find (\<lambda>r. strip r = c) (columns df) of
                                  Some r \<Rightarrow> row r | None \<Rightarrow> None) (iterrows df)\<rparr>"

text \<open>The columns that the import knows, \<^verbatim>\<open>columnas_validas\<close>.\<close>

definition columnas_validas :: "string list" where
  "columnas_validas =
     [''Nombre'', ''Precio Costo'', ''% Ganancia'', ''Cantidad'', col_stock_minimo, ''Proveedor'']"

text \<open>
  The conversions of a cell that is not blank.  \<^verbatim>\<open>int(v)\<close> truncates a float and reads
  text as \<^const>\<open>py_int\<close> does.  \<^verbatim>\<open>float(str(v).replace(",", "."))\<close> reads text as
  \<^const>\<open>py_float\<close> does after the replacement; \<^verbatim>\<open>str\<close> prints a number so that it
  reads back as the same number.  \<^verbatim>\<open>str(v)\<close> of a float is left open: \<open>str_float\<close> is
  whatever Python prints for it.
\<close>

definition int_valor :: "valor \<Rightarrow> error + int" where
  "int_valor v =
     (case v of Entero n \<Rightarrow> Inr n
      | Flotante r \<Rightarrow> Inr (if 0 \<le> r then floor r else ceiling r)
      | Texto s \<Rightarrow> py_int s)"

definition float_valor :: "valor \<Rightarrow> error + rat" where
  "float_valor v =
     (case v of Entero n \<Rightarrow> Inr (of_int n)
      | Flotante r \<Rightarrow> Inr r
      | Texto s \<Rightarrow> py_float (replace (CHR '','') ''.'' s))"

definition str_celda :: "(rat \<Rightarrow> string) \<Rightarrow> celda \<Rightarrow> string" where
  "str_celda str_float c =
     (case c of None \<Rightarrow> ''nan''
      | Some (Entero n) \<Rightarrow> str_int n
      | Some (Flotante r) \<Rightarrow> str_float r
      | Some (Texto s) \<Rightarrow> s)"

text \<open>
  An optional field of a row:
  \<^verbatim>\<open>conv(row[c]) if c in df.columns and not pd.isna(row[c]) else None\<close>.
\<close>

definition opcional ::
  "string list \<Rightarrow> (string \<Rightarrow> celda) \<Rightarrow> string \<Rightarrow> (valor \<Rightarrow> error + 'a) \<Rightarrow> error + 'a option" where
  "opcional cols row c conv =
     (if c \<in> set cols \<and> row c \<noteq> None
      then entonces (conv (the (row c))) (\<lambda>x. Inr (Some x))
      else Inr None)"

text \<open>
  The \<^verbatim>\<open>UPDATE productos SET ... WHERE nombre=?\<close> that the import builds from the fields
  that were provided, in the order of the statement, and the \<^verbatim>\<open>INSERT\<close> with the
  defaults.  With no provided field no statement is run.
\<close>

definition poner :: "'a option \<Rightarrow> 'a \<Rightarrow> 'a" where
  "poner nuevo guardado = (case nuevo of None \<Rightarrow> guardado | Some x \<Rightarrow> x)"

definition actualizar_campos ::
  "string \<Rightarrow> int option \<Rightarrow> int option \<Rightarrow> rat option \<Rightarrow> string option \<Rightarrow> rat option
    \<Rightarrow> producto list \<Rightarrow> producto list" where
  "actualizar_campos nom cant smin costo prov gan db =
     map (\<lambda>p. if nombre p = nom
              then p\<lparr>cantidad := poner cant (cantidad p),
                     stock_minimo := poner smin (stock_minimo p),
                     precio_costo := poner costo (precio_costo p),
                     proveedor := poner prov (proveedor p),
                     ganancia := (case gan of None \<Rightarrow> ganancia p | Some g \<Rightarrow> Some g)\<rparr>
              else p) db"

text \<open>
  The body of the \<^verbatim>\<open>try\<close> block, for one row.  The \<^verbatim>\<open>UPDATE\<close> and the \<^verbatim>\<open>INSERT\<close> are
  given the integers of the row and raise \<^verbatim>\<open>OverflowError\<close> when one of them is outside
  64 bits; \<open>nuevo_id\<close> is the identifier that SQLite gives to an inserted row.
\<close>

definition rango :: "int option \<Rightarrow> bool" where
  "rango x = (case x of None \<Rightarrow> True | Some i \<Rightarrow> en_int64 i)"

definition procesar_fila ::
  "(rat \<Rightarrow> string) \<Rightarrow> (producto list \<Rightarrow> int) \<Rightarrow> string list \<Rightarrow> (string \<Rightarrow> celda)
    \<Rightarrow> producto list \<Rightarrow> error + producto list" where
  "procesar_fila str_float nuevo_id cols row db =
     (let nom = strip (str_celda str_float (row ''Nombre''))
      in entonces (opcional cols row ''Cantidad'' int_valor) (\<lambda>cant.
         entonces (opcional cols row col_stock_minimo int_valor) (\<lambda>smin.
         entonces (opcional cols row ''Precio Costo'' float_valor) (\<lambda>costo.
         entonces (opcional cols row ''% Ganancia'' float_valor) (\<lambda>gan.
         let prov = (if ''Proveedor'' \<in> set cols \<and> row ''Proveedor'' \<noteq> None
                     then Some (strip (str_celda str_float (row ''Proveedor''))) else None)
         in if \<exists>p \<in> set db. nombre p = nom
            then (if rango cant \<and> rango smin
                  then Inr (actualizar_campos nom cant smin costo prov gan db)
                  else Inl OverflowError)
            else (if rango cant \<and> rango smin
                  then Inr (db @ [\<lparr>ident = nuevo_id db, nombre = nom,
                                   cantidad = poner cant 0, stock_minimo = poner smin 0,
                                   precio_costo = poner costo 0, proveedor = poner prov [],
                                   ganancia = Some (poner gan 0)\<rparr>])
                  else Inl OverflowError))))))"

text \<open>
  The loop over the rows: what the \<^verbatim>\<open>try\<close> block raises is caught and counted, and the
  loop goes on with the next row.  The state is the table and the two counters.
\<close>

definition importar_paso ::
  "(rat \<Rightarrow> string) \<Rightarrow> (producto list \<Rightarrow> int) \<Rightarrow> string list \<Rightarrow> producto list \<times> nat \<times> nat
    \<Rightarrow> (string \<Rightarrow> celda) \<Rightarrow> producto list \<times> nat \<times> nat" where
  "importar_paso str_float nuevo_id cols st row =
     (case st of (db, filas_ok, filas_err) \<Rightarrow>
        (case procesar_fila str_float nuevo_id cols row db of
           Inr db' \<Rightarrow> (db', filas_ok + 1, filas_err)
         | Inl e \<Rightarrow> (db, filas_ok, filas_err + 1)))"

definition importar_filas ::
  "(rat \<Rightarrow> string) \<Rightarrow> (producto list \<Rightarrow> int) \<Rightarrow> dataframe \<Rightarrow> producto list
    \<Rightarrow> producto list \<times> nat \<times> nat" where
  "importar_filas str_float nuevo_id df db =
     foldl (importar_paso str_float nuevo_id (columns df)) (db, 0, 0) (iterrows df)"

text \<open>
  \<^verbatim>\<open>importar_excel()\<close>.  The uploaded file is absent or has a name and the table that
  \<^verbatim>\<open>pd.read_excel\<close> reads from it.
\<close>

definition importar_excel ::
  "(rat \<Rightarrow> string) \<Rightarrow> (producto list \<Rightarrow> int) \<Rightarrow> session \<Rightarrow> metodo
    \<Rightarrow> (string \<times> dataframe) option \<Rightarrow> producto list \<Rightarrow> producto list \<times> respuesta" where
  "importar_excel str_float nuevo_id ses met archivo db =
     (if ses = None then (db, Redirigir ''login'' None)
      else if met = POST then
        (case archivo of
           None \<Rightarrow> (db, Redirigir ''importar_excel'' (Some ExcelInvalido))
         | Some (filename, leido) \<Rightarrow>
             if filename = [] \<or> \<not> suffix ''.xlsx'' filename
             then (db, Redirigir ''importar_excel'' (Some ExcelInvalido))
             else
               let df = strip_columns leido
               in if ''Nombre'' \<notin> set (columns df)
                  then (db, Redirigir ''importar_excel'' (Some FaltaNombre))
                  else
                    (case importar_filas str_float nuevo_id df db of
                       (db', filas_ok, filas_err) \<Rightarrow>
                         (db', Redirigir ''index'' (Some (ImportacionCompletada filas_ok filas_err)))))
      else (db, Plantilla ''importar.html''))"

text \<open>
  Whether a row is written: its conversions succeed and its integers fit in 64 bits.
  And whether a row provides a field.  Neither depends on the table.
\<close>

definition fila_valida :: "string list \<Rightarrow> (string \<Rightarrow> celda) \<Rightarrow> bool" where
  "fila_valida cols row \<longleftrightarrow>
     exito (opcional cols row ''Cantidad'' int_valor)
   \<and> exito (opcional cols row col_stock_minimo int_valor)
   \<and> exito (opcional cols row ''Precio Costo'' float_valor)
   \<and> exito (opcional cols row ''% Ganancia'' float_valor)
   \<and> (case opcional cols row ''Cantidad'' int_valor of Inr x \<Rightarrow> rango x | Inl e \<Rightarrow> True)
   \<and> (case opcional cols row col_stock_minimo int_valor of Inr x \<Rightarrow> rango x | Inl e \<Rightarrow> True)"

text \<open>
  The text cells that the model reads as Python does: in the two integer columns ASCII
  text, in the two float columns ASCII text that is not the name of a float without a
  value in the model.
\<close>

definition texto_entero_ok :: "celda \<Rightarrow> bool" where
  "texto_entero_ok c = (case c of Some (Texto s) \<Rightarrow> es_ascii s | _ \<Rightarrow> True)"

definition texto_float_ok :: "celda \<Rightarrow> bool" where
  "texto_float_ok c =
     (case c of Some (Texto s) \<Rightarrow> es_ascii s \<and> \<not> no_finito (replace (CHR '','') ''.'' s)
      | _ \<Rightarrow> True)"

definition fila_en_modelo :: "(string \<Rightarrow> celda) \<Rightarrow> bool" where
  "fila_en_modelo row \<longleftrightarrow>
     texto_entero_ok (row ''Cantidad'') \<and> texto_entero_ok (row col_stock_minimo)
   \<and> texto_float_ok (row ''Precio Costo'') \<and> texto_float_ok (row ''% Ganancia'')"

definition provisto :: "string list \<Rightarrow> (string \<Rightarrow> celda) \<Rightarrow> string \<Rightarrow> bool" where
  "provisto cols row c \<longleftrightarrow> c \<in> set cols \<and> row c \<noteq> None"

section \<open>Spreadsheet export\<close>

text \<open>
  \<^verbatim>\<open>exportar_excel()\<close> builds one dictionary for each product and the table with the six
  columns in the order of the import; \<open>productos_db\<close> is the list that
  \<^verbatim>\<open>obtener_productos()\<close> returns.  \<^verbatim>\<open>p["ganancia"] or 0\<close> is the float, or the integer
  \<open>0\<close>.
\<close>

definition columnas_export :: "string list" where
  "columnas_export =
     [''Nombre'', ''Precio Costo'', ''% Ganancia'', ''Cantidad'', col_stock_minimo, ''Proveedor'']"

definition fila_export :: "producto \<Rightarrow> string \<Rightarrow> celda" where
  "fila_export p c =
     (if c = ''Nombre'' then Some (Texto (nombre p))
      else if c = ''Precio Costo'' then Some (Flotante (precio_costo p))
      else if c = ''% Ganancia'' then
        (case ganancia p of None \<Rightarrow> Some (Entero 0)
         | Some g \<Rightarrow> if g = 0 then Some (Entero 0) else Some (Flotante g))
      else if c = ''Cantidad'' then Some (Entero (cantidad p))
      else if c = col_stock_minimo then Some (Entero (stock_minimo p))
      else if c = ''Proveedor'' then Some (Texto (proveedor p))
      else None)"

definition exportar_excel :: "session \<Rightarrow> producto list \<Rightarrow> respuesta + dataframe" where
  "exportar_excel ses productos_db =
     (if ses = None then Inl (Redirigir ''login'' None)
      else Inr \<lparr>columns = columnas_export, iterrows = map fila_export productos_db\<rparr>)"

text \<open>A row whose markup, where it is \<^verbatim>\<open>NULL\<close>, is stored as 0.\<close>

definition norma :: "producto \<Rightarrow> producto" where
  "norma p = p\<lparr>ganancia := Some (o_cero (ganancia p))\<rparr>"

section \<open>Changing the password\<close>

text \<open>
  The table \<^verbatim>\<open>usuarios\<close> as the list of its rows, a user name and a password hash.
  \<^verbatim>\<open>check_password_hash\<close> and \<^verbatim>\<open>generate_password_hash\<close> come from a library; they are
  parameters of the model.
\<close>

type_synonym usuarios = "(string \<times> string) list"

definition cambiar_password ::
  "(string \<Rightarrow> string \<Rightarrow> bool) \<Rightarrow> (string \<Rightarrow> string) \<Rightarrow> session \<Rightarrow> metodo \<Rightarrow> form \<Rightarrow> usuarios
    \<Rightarrow> error + (usuarios \<times> respuesta)" where
  "cambiar_password check_password_hash generate_password_hash ses met f us =
     (case ses of
        None \<Rightarrow> Inr (us, Redirigir ''login'' None)
      | Some usuario \<Rightarrow>
          if met = POST then
            entonces (campo f ''actual'') (\<lambda>actual.
            entonces (campo f ''nueva'') (\<lambda>nueva.
            entonces (campo f ''confirmar'') (\<lambda>confirmar.
            if nueva \<noteq> confirmar
            then Inr (us, Redirigir ''cambiar_password'' (Some NoCoinciden))
            else
              (case find (\<lambda>(u, h). u = usuario) us of
                 None \<Rightarrow> Inr (us, Redirigir ''cambiar_password'' (Some ActualIncorrecta))
               | Some (u, h) \<Rightarrow>
                   if \<not> check_password_hash h actual
                   then Inr (us, Redirigir ''cambiar_password'' (Some ActualIncorrecta))
                   else Inr (map (\<lambda>(u, h). if u = usuario
                                             then (u, generate_password_hash nueva) else (u, h)) us,
                             Redirigir ''inventario'' (Some PasswordCambiada))))))
          else Inr (us, Plantilla ''cambiar_password.html''))"

text \<open>The stored hash of a user, and whether a password verifies against it.\<close>

definition hash_de :: "usuarios \<Rightarrow> string \<Rightarrow> string option" where
  "hash_de us usuario = map_option snd (find (\<lambda>(u, h). u = usuario) us)"

definition verifica :: "(string \<Rightarrow> string \<Rightarrow> bool) \<Rightarrow> usuarios \<Rightarrow> string \<Rightarrow> string \<Rightarrow> bool" where
  "verifica check_password_hash us usuario password \<longleftrightarrow>
     (case hash_de us usuario of None \<Rightarrow> False | Some h \<Rightarrow> check_password_hash h password)"

section \<open>Rows of the examples\<close>


definition cable :: "int \<Rightarrow> int \<Rightarrow> producto" where
  "cable i n = \<lparr>ident = i, nombre = ''cable'', cantidad = n, stock_minimo = 1,
     precio_costo = 10, proveedor = ''acme'', ganancia = None\<rparr>"

definition foco :: producto where
  "foco = \<lparr>ident = 7, nombre = ''Foco LED'', cantidad = 4, stock_minimo = 10,
     precio_costo = 100, proveedor = ''Luz SA'', ganancia = Some 20\<rparr>"





text \<open>
  Examples for the import: a printer of floats, a product whose name ends in a space, one
  whose supplier begins with a space, lamps with a given identifier and quantity, and a
  sheet whose first row has a quantity that is not a number.
\<close>

definition imprimir_ej :: "rat \<Rightarrow> string" where
  "imprimir_ej r = ''0.0''"

definition cable_espacio :: producto where
  "cable_espacio = \<lparr>ident = 1, nombre = ''cable '', cantidad = 3, stock_minimo = 1,
     precio_costo = 10, proveedor = ''acme'', ganancia = Some 20\<rparr>"

definition cable_proveedor :: producto where
  "cable_proveedor = \<lparr>ident = 1, nombre = ''cable'', cantidad = 3, stock_minimo = 1,
     precio_costo = 10, proveedor = '' acme'', ganancia = Some 20\<rparr>"

definition lampara :: "int \<Rightarrow> int \<Rightarrow> producto" where
  "lampara i n = \<lparr>ident = i, nombre = ''lampara'', cantidad = n, stock_minimo = 1,
     precio_costo = 10, proveedor = ''acme'', ganancia = Some 20\<rparr>"

definition hoja_ej :: dataframe where
  "hoja_ej =
     \<lparr>columns = ['' Nombre '', ''Cantidad'', ''Precio Costo''],
      iterrows =
        [(\<lambda>c. None)('' Nombre '' := Some (Texto ''cable''), ''Cantidad'' := Some (Texto ''abc'')),
         (\<lambda>c. None)('' Nombre '' := Some (Texto '' cable ''), ''Precio Costo'' := Some (Texto ''12,5'')),
         (\<lambda>c. None)('' Nombre '' := Some (Texto ''tubo''), ''Cantidad'' := Some (Flotante (7 / 2)))]\<rparr>"

definition hoja_sin_nombre :: dataframe where
  "hoja_sin_nombre =
     \<lparr>columns = [''Producto'', ''Cantidad''],
      iterrows = [(\<lambda>c. None)(''Producto'' := Some (Texto ''cable''), ''Cantidad'' := Some (Entero 9))]\<rparr>"

definition fila_ej :: "string \<Rightarrow> celda" where
  "fila_ej = (\<lambda>c. None)(''Nombre'' := Some (Texto '' cable ''), ''Precio Costo'' := Some (Texto ''12,5''))"

definition fila_tubo :: "string \<Rightarrow> celda" where
  "fila_tubo = (\<lambda>c. None)(''Nombre'' := Some (Texto ''tubo''), ''Cantidad'' := Some (Flotante (7 / 2)))"

section \<open>Properties\<close>

subsection \<open>Sell\<close>

text \<open>
  Claim C3.  For a logged-in caller, a product name and a positive quantity, the sell
  operation is one conditional update of the table: the table keeps its length and its
  order, and the row at each position is decremented by the requested amount exactly
  when it bears the name and its stored quantity is at least the requested amount, all
  its other columns being kept; every other row is left as it was.  Hence a request above
  the current stock leaves the quantity unchanged, a request equal to the stock brings
  it to 0, a quantity that was not negative before the sell is not negative after it,
  and every row that the sell changes has a quantity that is not negative.
\<close>

theorem vender_conditional_update:
  assumes "ses = Some u" and "0 < cant"
  shows "length (fst (vender ses nom cant db)) = length db
    \<and> (\<forall>i < length db.
         (nombre (db ! i) = nom \<and> cant \<le> cantidad (db ! i)
            \<longrightarrow> fst (vender ses nom cant db) ! i = (db ! i)\<lparr>cantidad := cantidad (db ! i) - cant\<rparr>)
       \<and> (\<not> (nombre (db ! i) = nom \<and> cant \<le> cantidad (db ! i))
            \<longrightarrow> fst (vender ses nom cant db) ! i = db ! i)
       \<and> (cantidad (db ! i) < cant \<longrightarrow> cantidad (fst (vender ses nom cant db) ! i) = cantidad (db ! i))
       \<and> (nombre (db ! i) = nom \<and> cantidad (db ! i) = cant
            \<longrightarrow> cantidad (fst (vender ses nom cant db) ! i) = 0)
       \<and> (0 \<le> cantidad (db ! i) \<longrightarrow> 0 \<le> cantidad (fst (vender ses nom cant db) ! i))
       \<and> (fst (vender ses nom cant db) ! i \<noteq> db ! i
            \<longrightarrow> 0 \<le> cantidad (fst (vender ses nom cant db) ! i)))"
  using assms by (auto simp: vender_def)

theorem vender_conditional_update_witness:
  "Some ''admin'' = Some ''admin'' \<and> (0::int) < 3
   \<and> fst (vender (Some ''admin'') ''cable'' 3 [cable 1 3, cable 2 2]) ! 0 = cable 1 0
   \<and> cantidad (fst (vender (Some ''admin'') ''cable'' 3 [cable 1 3, cable 2 2]) ! 1) = 2"
  using vender_conditional_update [where ses = "Some ''admin''" and u = "''admin''"
      and cant = 3 and db = "[cable 1 3, cable 2 2]" and nom = "''cable''"]
  by (simp add: nth_Cons' cable_def)

subsection \<open>Pricing\<close>

lemma map_eq_appendD:
  "map f s = a @ b \<Longrightarrow> \<exists>u r. s = u @ r \<and> map f u = a \<and> map f r = b"
  using map_eq_append_conv [of f s a b] by auto

lemma sublist_map_iff:
  "sublist (map f q) (map f s) \<longleftrightarrow> (\<exists>u v w. s = u @ v @ w \<and> map f v = map f q)"
proof
  assume "sublist (map f q) (map f s)"
  then obtain ps ss where "map f s = ps @ (map f q @ ss)"
    unfolding sublist_def by blast
  from map_eq_appendD [OF this]
  obtain u r where s: "s = u @ r" and r: "map f r = map f q @ ss"
    by blast
  from map_eq_appendD [OF r]
  obtain v w where "r = v @ w" and "map f v = map f q"
    by blast
  with s have "s = u @ v @ w \<and> map f v = map f q"
    by simp
  then show "\<exists>u v w. s = u @ v @ w \<and> map f v = map f q"
    by blast
next
  assume "\<exists>u v w. s = u @ v @ w \<and> map f v = map f q"
  then obtain u v w where "s = u @ v @ w" and "map f v = map f q" by blast
  then have "map f s = map f u @ map f q @ map f w" by simp
  then show "sublist (map f q) (map f s)" unfolding sublist_def by blast
qed

lemma distinct_snd_inj:
  "distinct (map snd ps) \<Longrightarrow> (a, d) \<in> set ps \<Longrightarrow> (b, d) \<in> set ps \<Longrightarrow> a = b"
proof (induction ps)
  case Nil
  then show ?case by simp
next
  case (Cons p ps)
  from Cons.prems(1) have n: "\<And>x. (x, snd p) \<notin> set ps"
    by (auto simp: image_iff)
  from Cons show ?case
    using n by (cases p) auto
qed

lemma tabla_eq_iff:
  assumes "distinct xs" and "distinct ys" and "length xs = length ys" and "set xs \<inter> set ys = {}"
  shows "(case map_of (zip xs ys) a of Some d \<Rightarrow> d | None \<Rightarrow> a)
       = (case map_of (zip xs ys) b of Some d \<Rightarrow> d | None \<Rightarrow> b)
     \<longleftrightarrow> a = b \<or> (a, b) \<in> set (zip xs ys) \<or> (b, a) \<in> set (zip xs ys)"
proof -
  define f where "f c = (case map_of (zip xs ys) c of Some d \<Rightarrow> d | None \<Rightarrow> c)" for c
  have dk: "distinct (map fst (zip xs ys))" and dv: "distinct (map snd (zip xs ys))"
    using assms(1-3) by simp_all
  have fuera: "f c = c" if "c \<notin> set xs" for c
  proof -
    from that have "map_of (zip xs ys) c = None"
      using map_of_zip_is_None [OF assms(3), of c] by simp
    then show ?thesis by (simp add: f_def)
  qed
  have dentro: "(c, f c) \<in> set (zip xs ys)" if "c \<in> set xs" for c
  proof -
    from that have "map_of (zip xs ys) c \<noteq> None"
      using map_of_zip_is_None [OF assms(3), of c] by simp
    then obtain d where d: "map_of (zip xs ys) c = Some d" by blast
    then have "(c, d) \<in> set (zip xs ys)" by (rule map_of_SomeD)
    with d show ?thesis by (simp add: f_def)
  qed
  have izq: "c \<in> set xs" and der: "d \<in> set ys" if "(c, d) \<in> set (zip xs ys)" for c d
    using that by (auto dest: set_zip_leftD set_zip_rightD)
  have nys: "c \<notin> set xs" if "c \<in> set ys" for c
    using that assms(4) by auto
  have "f a = f b \<longleftrightarrow> a = b \<or> (a, b) \<in> set (zip xs ys) \<or> (b, a) \<in> set (zip xs ys)"
  proof (cases "a \<in> set xs")
    case a: True
    show ?thesis
    proof (cases "b \<in> set xs")
      case b: True
      have "a = b" if "f a = f b"
        using distinct_snd_inj [OF dv dentro [OF a]] dentro [OF b] that by simp
      moreover have "(a, b) \<notin> set (zip xs ys)" using b der nys by blast
      moreover have "(b, a) \<notin> set (zip xs ys)" using a der nys by blast
      ultimately show ?thesis by blast
    next
      case b: False
      have "f a = b \<longleftrightarrow> (a, b) \<in> set (zip xs ys)"
        using dentro [OF a] eq_key_imp_eq_value [OF dk dentro [OF a]] by blast
      moreover have "a \<noteq> b" using a b by blast
      moreover have "(b, a) \<notin> set (zip xs ys)" using b izq by blast
      ultimately show ?thesis by (simp add: fuera [OF b])
    qed
  next
    case a: False
    show ?thesis
    proof (cases "b \<in> set xs")
      case b: True
      have "a = f b \<longleftrightarrow> (b, a) \<in> set (zip xs ys)"
        using dentro [OF b] eq_key_imp_eq_value [OF dk dentro [OF b]] by blast
      moreover have "a \<noteq> b" using a b by blast
      moreover have "(a, b) \<notin> set (zip xs ys)" using a izq by blast
      ultimately show ?thesis by (simp add: fuera [OF a])
    next
      case b: False
      have "(a, b) \<notin> set (zip xs ys)" using a izq by blast
      moreover have "(b, a) \<notin> set (zip xs ys)" using b izq by blast
      ultimately show ?thesis by (simp add: fuera [OF a] fuera [OF b])
    qed
  qed
  then show ?thesis by (simp add: f_def)
qed

lemma minuscula_eq_iff: "minuscula a = minuscula b \<longleftrightarrow> misma_letra a b"
  unfolding minuscula_def misma_letra_def
  by (rule tabla_eq_iff) (simp_all add: mayusculas_def minusculas_def)

lemma map_eq_map_iff: "map f xs = map f ys \<longleftrightarrow> list_all2 (\<lambda>x y. f x = f y) xs ys"
  by (auto simp: list_all2_conv_all_nth list_eq_iff_nth_eq)

lemma lower_ascii_eq_iff: "lower_ascii v = lower_ascii q \<longleftrightarrow> igual_sin_caja v q"
  by (simp add: lower_ascii_def igual_sin_caja_def map_eq_map_iff minuscula_eq_iff)

lemma sublist_lower_ascii:
  "sublist (lower_ascii q) (lower_ascii s) \<longleftrightarrow> (\<exists>u v w. s = u @ v @ w \<and> igual_sin_caja v q)"
  unfolding lower_ascii_eq_iff [symmetric] lower_ascii_def by (rule sublist_map_iff)

lemma pasa_coincide:
  assumes "\<forall>s. es_ascii s \<longrightarrow> lower s = lower_ascii s"
    and "es_ascii q" and "es_ascii (nombre p)" and "es_ascii (proveedor p)"
  shows "pasa lower q p \<longleftrightarrow> coincide q p"
  using assms by (simp add: pasa_def coincide_def sublist_lower_ascii)

lemma o_cero_markup: "o_cero (ganancia p) = markup p"
  by (simp add: o_cero_def markup_def split: option.splits)

lemma fila_de_markup:
  "fila_de p =
     \<lparr>ident = ident p, nombre = nombre p, cantidad = cantidad p,
      stock_minimo = stock_minimo p, precio_costo = precio_costo p,
      proveedor = proveedor p, ganancia = Some (markup p),
      precio_venta = sale_price p\<rparr>"
  by (simp add: fila_de_def o_cero_markup sale_price_def)

lemma filter_fila_de:
  "filter (\<lambda>p. sublist k (lower (nombre p)) \<or> sublist k (lower (proveedor p))) (map fila_de db)
     = map fila_de
         (filter (\<lambda>p. sublist k (lower (nombre p)) \<or> sublist k (lower (proveedor p))) db)"
  by (induction db) (auto simp: fila_de_def)

lemma filter_vacio:
  "filter (\<lambda>p::producto. sublist [] (lower (nombre p)) \<or> sublist [] (lower (proveedor p))) db = db"
  by simp

lemma inventario_eq:
  "inventario lower (Some u) q db =
     Inr \<lparr>productos = map fila_de (filter (pasa lower q) db), query = lower q,
          total_costo = (\<Sum>p\<leftarrow>filter (pasa lower q) db. of_int (cantidad p) * precio_costo p),
          total_venta = (\<Sum>p\<leftarrow>filter (pasa lower q) db. of_int (cantidad p) * sale_price p),
          ganancia_total =
            (\<Sum>p\<leftarrow>filter (pasa lower q) db. of_int (cantidad p) * sale_price p)
          - (\<Sum>p\<leftarrow>filter (pasa lower q) db. of_int (cantidad p) * precio_costo p)\<rparr>"
proof -
  have sel: "cantidad (fila_de p) = cantidad p" "precio_costo (fila_de p) = precio_costo p"
    "precio_venta (fila_de p) = sale_price p" for p
    by (simp_all add: fila_de_markup)
  have pasa: "pasa lower q
    = (\<lambda>p. sublist (lower q) (lower (nombre p)) \<or> sublist (lower q) (lower (proveedor p)))"
    by (rule ext) (simp add: pasa_def)
  have filas: "(if lower q \<noteq> [] then
           filter (\<lambda>p. sublist (lower q) (lower (nombre p)) \<or> sublist (lower q) (lower (proveedor p)))
             (map fila_de db)
         else map fila_de db) = map fila_de (filter (pasa lower q) db)"
  proof (cases "lower q = []")
    case True
    then show ?thesis by (simp add: pasa)
  next
    case False
    then show ?thesis
      unfolding pasa using filter_fila_de [of "lower q" lower db] by simp
  qed
  show ?thesis
    unfolding inventario_def Let_def filas
    by (simp add: sel comp_def)
qed

text \<open>
  Claim C2.  For a logged-in caller the inventory page is computed from the stored
  products as follows.  The markup of a product is the stored percentage, a missing one
  counting as 0, and its sale price is the cost price times (1 + markup / 100).  The
  page lists, with these two values, the products that pass the free-text filter: those
  for which the folded query is a piece of the folded name or of the folded supplier.
  The three totals run over this filtered list: the total cost is the sum of quantity
  times cost price, the total sale is the sum of quantity times sale price, and the
  margin is the total sale minus the total cost.  When no product passes the filter, in
  particular for the empty list, the three totals are 0.  Where the folding is that of
  the ASCII letters, and the query, the names and the suppliers are ASCII text, the
  products that pass are those of which some piece of the name or of the supplier equals
  the query letter by letter up to upper and lower case.  A product with cost 100 and
  markup 20 has the sale price 120.
\<close>

theorem inventario_totals:
  "\<exists>ctx. inventario lower (Some u) q db = Inr ctx
    \<and> productos ctx
        = map (\<lambda>p. \<lparr>ident = ident p, nombre = nombre p, cantidad = cantidad p,
                    stock_minimo = stock_minimo p, precio_costo = precio_costo p,
                    proveedor = proveedor p, ganancia = Some (markup p),
                    precio_venta = sale_price p\<rparr>)
            (filter (pasa lower q) db)
    \<and> total_costo ctx = (\<Sum>p\<leftarrow>filter (pasa lower q) db. of_int (cantidad p) * precio_costo p)
    \<and> total_venta ctx = (\<Sum>p\<leftarrow>filter (pasa lower q) db. of_int (cantidad p) * sale_price p)
    \<and> ganancia_total ctx = total_venta ctx - total_costo ctx
    \<and> (filter (pasa lower q) db = [] \<longrightarrow>
          total_costo ctx = 0 \<and> total_venta ctx = 0 \<and> ganancia_total ctx = 0)
    \<and> ((\<forall>s. es_ascii s \<longrightarrow> lower s = lower_ascii s) \<and> es_ascii q
          \<and> (\<forall>p \<in> set db. es_ascii (nombre p) \<and> es_ascii (proveedor p))
        \<longrightarrow> filter (pasa lower q) db = filter (coincide q) db)
    \<and> (precio_costo p = 100 \<and> ganancia p = Some 20 \<longrightarrow> sale_price p = 120)"
proof -
  have filtro: "filter (pasa lower q) db = filter (coincide q) db"
    if "\<forall>s. es_ascii s \<longrightarrow> lower s = lower_ascii s" and "es_ascii q"
      and "\<forall>p \<in> set db. es_ascii (nombre p) \<and> es_ascii (proveedor p)"
    using that by (intro filter_cong refl pasa_coincide) blast+
  have precio: "sale_price p = 120" if "precio_costo p = 100" and "ganancia p = Some 20"
    using that by (simp add: sale_price_def markup_def)
  have filas: "map fila_de xs
      = map (\<lambda>p. \<lparr>ident = ident p, nombre = nombre p, cantidad = cantidad p,
                    stock_minimo = stock_minimo p, precio_costo = precio_costo p,
                    proveedor = proveedor p, ganancia = Some (markup p),
                    precio_venta = sale_price p\<rparr>) xs" for xs
    by (simp add: fila_de_markup)
  show ?thesis
    unfolding inventario_eq using filtro precio by (simp add: filas)
qed

theorem inventario_totals_witness:
  "(\<exists>ctx. inventario lower_ascii (Some ''admin'') ''led'' [cable 1 3, foco] = Inr ctx
      \<and> productos ctx
          = [\<lparr>ident = 7, nombre = ''Foco LED'', cantidad = 4, stock_minimo = 10,
               precio_costo = 100, proveedor = ''Luz SA'', ganancia = Some 20,
               precio_venta = 120\<rparr>]
      \<and> total_costo ctx = 400 \<and> total_venta ctx = 480 \<and> ganancia_total ctx = 80)
   \<and> filter (coincide ''led'') [cable 1 3, foco] = [foco]
   \<and> (\<exists>ctx. inventario lower_ascii (Some ''admin'') ''ACME'' [cable 1 3, foco] = Inr ctx
      \<and> productos ctx
          = [\<lparr>ident = 1, nombre = ''cable'', cantidad = 3, stock_minimo = 1,
               precio_costo = 10, proveedor = ''acme'', ganancia = Some 0,
               precio_venta = 10\<rparr>]
      \<and> total_costo ctx = 30 \<and> total_venta ctx = 30 \<and> ganancia_total ctx = 0)
   \<and> filter (coincide ''ACME'') [cable 1 3, foco] = [cable 1 3]
   \<and> (\<exists>ctx. inventario lower_ascii (Some ''admin'') ''zinc'' [cable 1 3, foco] = Inr ctx
      \<and> productos ctx = []
      \<and> total_costo ctx = 0 \<and> total_venta ctx = 0 \<and> ganancia_total ctx = 0)
   \<and> filter (coincide ''zinc'') [cable 1 3, foco] = []
   \<and> sale_price foco = 120"
proof -
  have led: "filter (pasa lower_ascii ''led'') [cable 1 3, foco] = [foco]"
    by (simp add: pasa_def lower_ascii_def minuscula_def mayusculas_def minusculas_def
        cable_def foco_def sublist_Cons_right)
  have acme: "filter (pasa lower_ascii ''ACME'') [cable 1 3, foco] = [cable 1 3]"
    by (simp add: pasa_def lower_ascii_def minuscula_def mayusculas_def minusculas_def
        cable_def foco_def sublist_Cons_right)
  have zinc: "filter (pasa lower_ascii ''zinc'') [cable 1 3, foco] = []"
    by (simp add: pasa_def lower_ascii_def minuscula_def mayusculas_def minusculas_def
        cable_def foco_def sublist_Cons_right)
  have ascii: "es_ascii ''led''" "es_ascii ''ACME''" "es_ascii ''zinc''"
    "\<forall>p \<in> set [cable 1 3, foco]. es_ascii (nombre p) \<and> es_ascii (proveedor p)"
    by (simp_all add: es_ascii_def cable_def foco_def)
  have precios: "sale_price foco = 120" "sale_price (cable 1 3) = 10"
    "markup foco = 20" "markup (cable 1 3) = 0"
    by (simp_all add: sale_price_def markup_def foco_def cable_def)
  have filas: "ident foco = 7" "nombre foco = ''Foco LED''" "cantidad foco = 4"
    "stock_minimo foco = 10" "precio_costo foco = 100" "proveedor foco = ''Luz SA''"
    "ganancia foco = Some 20"
    "ident (cable 1 3) = 1" "nombre (cable 1 3) = ''cable''" "cantidad (cable 1 3) = 3"
    "stock_minimo (cable 1 3) = 1" "precio_costo (cable 1 3) = 10"
    "proveedor (cable 1 3) = ''acme''"
    by (simp_all add: foco_def cable_def)
  have pliegue: "\<forall>s. es_ascii s \<longrightarrow> lower_ascii s = lower_ascii s"
    by simp
  from inventario_totals [where lower = lower_ascii and u = "''admin''" and q = "''led''"
      and db = "[cable 1 3, foco]" and p = foco]
  obtain c1 where c1: "inventario lower_ascii (Some ''admin'') ''led'' [cable 1 3, foco] = Inr c1"
    "productos c1
        = map (\<lambda>p. \<lparr>ident = ident p, nombre = nombre p, cantidad = cantidad p,
                    stock_minimo = stock_minimo p, precio_costo = precio_costo p,
                    proveedor = proveedor p, ganancia = Some (markup p),
                    precio_venta = sale_price p\<rparr>) [foco]"
    "total_costo c1 = (\<Sum>p\<leftarrow>[foco]. of_int (cantidad p) * precio_costo p)"
    "total_venta c1 = (\<Sum>p\<leftarrow>[foco]. of_int (cantidad p) * sale_price p)"
    "ganancia_total c1 = total_venta c1 - total_costo c1"
    "[foco] = filter (coincide ''led'') [cable 1 3, foco]"
    "sale_price foco = 120"
    unfolding led using pliegue ascii filas by blast
  from inventario_totals [where lower = lower_ascii and u = "''admin''" and q = "''ACME''"
      and db = "[cable 1 3, foco]" and p = foco]
  obtain c2 where c2: "inventario lower_ascii (Some ''admin'') ''ACME'' [cable 1 3, foco] = Inr c2"
    "productos c2
        = map (\<lambda>p. \<lparr>ident = ident p, nombre = nombre p, cantidad = cantidad p,
                    stock_minimo = stock_minimo p, precio_costo = precio_costo p,
                    proveedor = proveedor p, ganancia = Some (markup p),
                    precio_venta = sale_price p\<rparr>) [cable 1 3]"
    "total_costo c2 = (\<Sum>p\<leftarrow>[cable 1 3]. of_int (cantidad p) * precio_costo p)"
    "total_venta c2 = (\<Sum>p\<leftarrow>[cable 1 3]. of_int (cantidad p) * sale_price p)"
    "ganancia_total c2 = total_venta c2 - total_costo c2"
    "[cable 1 3] = filter (coincide ''ACME'') [cable 1 3, foco]"
    unfolding acme using pliegue ascii by blast
  from inventario_totals [where lower = lower_ascii and u = "''admin''" and q = "''zinc''"
      and db = "[cable 1 3, foco]" and p = foco]
  obtain c3 where c3: "inventario lower_ascii (Some ''admin'') ''zinc'' [cable 1 3, foco] = Inr c3"
    "productos c3
        = map (\<lambda>p. \<lparr>ident = ident p, nombre = nombre p, cantidad = cantidad p,
                    stock_minimo = stock_minimo p, precio_costo = precio_costo p,
                    proveedor = proveedor p, ganancia = Some (markup p),
                    precio_venta = sale_price p\<rparr>) []"
    "total_costo c3 = 0" "total_venta c3 = 0" "ganancia_total c3 = 0"
    "[] = filter (coincide ''zinc'') [cable 1 3, foco]"
    unfolding zinc using pliegue ascii by blast
  have "productos c1
          = [\<lparr>ident = 7, nombre = ''Foco LED'', cantidad = 4, stock_minimo = 10,
               precio_costo = 100, proveedor = ''Luz SA'', ganancia = Some 20,
               precio_venta = 120\<rparr>]"
    "total_costo c1 = 400" "total_venta c1 = 480" "ganancia_total c1 = 80"
    using c1(2-5) by (simp_all add: precios filas)
  moreover have "productos c2
          = [\<lparr>ident = 1, nombre = ''cable'', cantidad = 3, stock_minimo = 1,
               precio_costo = 10, proveedor = ''acme'', ganancia = Some 0,
               precio_venta = 10\<rparr>]"
    "total_costo c2 = 30" "total_venta c2 = 30" "ganancia_total c2 = 0"
    using c2(2-5) by (simp_all add: precios filas)
  moreover have "productos c3 = []"
    using c3(2) by simp
  ultimately show ?thesis
    using c1(1,6,7) c2(1,6) c3(1,3-6) by simp
qed

subsection \<open>Reorder\<close>

lemma primeros_snoc:
  "primeros (xs @ [x]) = (if x \<in> set xs then primeros xs else primeros xs @ [x])"
proof (induction xs rule: primeros.induct)
  case 1
  show ?case by simp
next
  case (2 a xs)
  show ?case
  proof (cases "x = a")
    case True
    then show ?thesis by simp
  next
    case False
    then have "primeros ((a # xs) @ [x]) = a # primeros (filter (\<lambda>y. y \<noteq> a) xs @ [x])"
      by simp
    also have "\<dots> = a # (if x \<in> set (filter (\<lambda>y. y \<noteq> a) xs)
                        then primeros (filter (\<lambda>y. y \<noteq> a) xs)
                        else primeros (filter (\<lambda>y. y \<noteq> a) xs) @ [x])"
      using "2.IH" by simp
    finally show ?thesis using False by auto
  qed
qed

lemma set_primeros: "set (primeros xs) = set xs"
  by (induction xs rule: primeros.induct) auto

lemma distinct_primeros: "distinct (primeros xs)"
  by (induction xs rule: primeros.induct) (auto simp: set_primeros)

lemma keys_agrupado: "map fst (agrupado ps) = primeros (map proveedor (filter falta ps))"
  by (simp add: agrupado_def comp_def)

lemma agrupado_snoc_falta:
  assumes "falta p"
  shows "agrupado (qs @ [p]) =
     (if proveedor p \<in> set (map fst (agrupado qs))
      then append_en (proveedor p) (linea_de p) (agrupado qs)
      else agrupado qs @ [(proveedor p, [linea_de p])])"
proof -
  define F where "F = filter falta qs"
  define ks where "ks = primeros (map proveedor F)"
  have ks: "set ks = proveedor ` set F"
    by (simp add: ks_def set_primeros)
  have ag: "agrupado qs = map (\<lambda>k. (k, map linea_de (filter (\<lambda>q. proveedor q = k) F))) ks"
    by (simp add: agrupado_def F_def ks_def)
  have keys: "map fst (agrupado qs) = ks"
    by (simp add: ag comp_def)
  have snoc: "agrupado (qs @ [p]) =
      map (\<lambda>k. (k, map linea_de (filter (\<lambda>q. proveedor q = k) (F @ [p]))))
        (primeros (map proveedor F @ [proveedor p]))"
    using assms by (simp add: agrupado_def F_def)
  show ?thesis
  proof (cases "proveedor p \<in> set ks")
    case True
    then have "primeros (map proveedor F @ [proveedor p]) = ks"
      by (simp add: primeros_snoc ks_def set_primeros)
    then have "agrupado (qs @ [p]) =
        map (\<lambda>k. (k, map linea_de (filter (\<lambda>q. proveedor q = k) (F @ [p])))) ks"
      using snoc by simp
    also have "\<dots> = append_en (proveedor p) (linea_de p) (agrupado qs)"
      unfolding append_en_def ag by auto
    finally show ?thesis using True by (simp add: keys)
  next
    case False
    then have "\<forall>q \<in> set F. proveedor q \<noteq> proveedor p"
      unfolding ks by (metis imageI)
    then have vacio: "filter (\<lambda>q. proveedor q = proveedor p) F = []"
      by (simp add: filter_empty_conv)
    have viejos: "filter (\<lambda>q. proveedor q = k) (F @ [p]) = filter (\<lambda>q. proveedor q = k) F"
      if "k \<in> set ks" for k
      using that False by auto
    from False have "primeros (map proveedor F @ [proveedor p]) = ks @ [proveedor p]"
      by (simp add: primeros_snoc ks_def set_primeros)
    then have "agrupado (qs @ [p]) =
        map (\<lambda>k. (k, map linea_de (filter (\<lambda>q. proveedor q = k) (F @ [p])))) ks
        @ [(proveedor p, map linea_de (filter (\<lambda>q. proveedor q = proveedor p) (F @ [p])))]"
      using snoc by simp
    also have "\<dots> = agrupado qs @ [(proveedor p, [linea_de p])]"
      unfolding ag using viejos vacio by simp
    finally show ?thesis using False by (simp add: keys)
  qed
qed

lemma append_en_snoc:
  "k \<notin> set (map fst ped) \<Longrightarrow> append_en k l (ped @ [(k, [])]) = ped @ [(k, [l])]"
proof -
  assume "k \<notin> set (map fst ped)"
  then have "\<forall>x \<in> set ped. fst x \<noteq> k" by (metis imageI set_map)
  then have "map (\<lambda>(k', ls). if k' = k then (k', ls @ [l]) else (k', ls)) ped = ped"
    by (intro map_idI) (auto simp: case_prod_beta)
  then show ?thesis by (simp add: append_en_def)
qed

lemma pedidos_paso_agrupado: "pedidos_paso (agrupado qs) p = agrupado (qs @ [p])"
proof (cases "falta p")
  case False
  then show ?thesis by (simp add: pedidos_paso_def agrupado_def falta_def Let_def)
next
  case True
  have l: "\<lparr>faltante = stock_minimo p - cantidad p, nombre_linea = nombre p,
             costo_linea = precio_costo p\<rparr> = linea_de p"
    by (simp add: linea_de_def)
  have paso: "pedidos_paso (agrupado qs) p =
      append_en (proveedor p) (linea_de p)
        (if proveedor p \<notin> set (map fst (agrupado qs)) then agrupado qs @ [(proveedor p, [])]
         else agrupado qs)"
    using True unfolding pedidos_paso_def Let_def falta_def l by simp
  show ?thesis
    unfolding paso agrupado_snoc_falta [OF True]
    by (simp add: append_en_snoc del: set_map)
qed

lemma foldl_pedidos_paso: "foldl pedidos_paso (agrupado qs) ps = agrupado (qs @ ps)"
proof (induction ps arbitrary: qs)
  case Nil
  show ?case by simp
next
  case (Cons p ps)
  show ?case using Cons.IH [of "qs @ [p]"] by (simp add: pedidos_paso_agrupado)
qed

lemma generar_pedidos_agrupado: "generar_pedidos ps = agrupado ps"
  using foldl_pedidos_paso [of "[]" ps] by (simp add: generar_pedidos_def agrupado_def)

lemma foldl_append_concat: "foldl (\<lambda>m p. m @ f p) h xs = h @ concat (map f xs)"
  by (induction xs arbitrary: h) simp_all

lemma mensaje_pedido_eq:
  "mensaje_pedido prov lista =
     paquete @ '' *Pedido para '' @ prov @ ''* '' @ paquete @ [CHR 0x0A, CHR 0x0A]
     @ concat (map (\<lambda>l. ''- '' @ str_int (faltante l) @ '' '' @ nombre_linea l @ [CHR 0x0A]) lista)"
  unfolding mensaje_pedido_def foldl_append_concat by simp

lemma length_takeWhile_nth:
  "distinct xs \<Longrightarrow> d < length xs \<Longrightarrow> length (takeWhile (\<lambda>y. y \<noteq> xs ! d) xs) = d"
proof (induction xs arbitrary: d)
  case Nil
  then show ?case by simp
next
  case (Cons x xs)
  show ?case
  proof (cases d)
    case 0
    then show ?thesis by simp
  next
    case (Suc e)
    with Cons.prems have "xs ! e \<in> set xs" by simp
    with Cons.prems have "x \<noteq> xs ! e" by auto
    with Suc Cons show ?thesis by simp
  qed
qed

lemma valor_hex_hex_char: "d < 16 \<Longrightarrow> valor_hex (hex_char d) = d"
  unfolding valor_hex_def hex_char_def
  by (rule length_takeWhile_nth) simp_all

lemma hex_char_seguro: "d < 16 \<Longrightarrow> hex_char d \<in> set seguros"
proof -
  assume "d < 16"
  then have "hex_char d \<in> set ''0123456789ABCDEF''"
    unfolding hex_char_def by (intro nth_mem) simp
  then show ?thesis by (auto simp: seguros_def)
qed

lemma of_char_lt_256: "(of_char c :: nat) < 256"
  by (cases c) (simp add: of_char_Char)

lemma of_char_div_16: "(of_char c :: nat) div 16 < 16"
  using of_char_lt_256 [of c] by (simp add: less_mult_imp_div_less)

lemma unquote_quote_byte: "unquote (quote_byte c @ cs) = c # unquote cs"
proof (cases "c \<in> set seguros")
  case True
  then have "c \<noteq> CHR ''%''" by (auto simp: seguros_def)
  with True show ?thesis
    by (cases cs rule: unquote.cases) (simp_all add: quote_byte_def)
next
  case False
  have "valor_hex (hex_char (of_char c div 16)) * 16 + valor_hex (hex_char (of_char c mod 16))
      = (of_char c :: nat)"
    by (simp add: valor_hex_hex_char of_char_div_16)
  with False show ?thesis
    by (simp add: quote_byte_def)
qed

lemma unquote_quote: "unquote (quote s) = s"
  by (induction s) (simp_all add: quote_def unquote_quote_byte)

lemma set_quote: "set (quote s) \<subseteq> set seguros \<union> {CHR ''%''}"
proof -
  have "set (quote_byte c) \<subseteq> set seguros \<union> {CHR ''%''}" for c
    by (simp add: quote_byte_def hex_char_seguro of_char_div_16)
  then show ?thesis by (auto simp: quote_def)
qed

lemma es_digito_digit_char: "d < 10 \<Longrightarrow> es_digito (digit_char d)"
  unfolding es_digito_def digit_char_def by (intro nth_mem) simp

lemma valor_digito_digit_char: "d < 10 \<Longrightarrow> valor_digito (digit_char d) = d"
  unfolding valor_digito_def digit_char_def
  by (rule length_takeWhile_nth) simp_all

lemma digit_char_cero: "d < 10 \<Longrightarrow> digit_char d = CHR ''0'' \<longleftrightarrow> d = 0"
proof -
  assume d: "d < 10"
  have "valor_digito (CHR ''0'') = 0" by (simp add: valor_digito_def)
  then show ?thesis
    using valor_digito_digit_char [OF d] by (auto simp: digit_char_def)
qed

lemma str_nat_no_vacio: "str_nat n \<noteq> []"
  by (subst str_nat.simps) simp

lemma str_nat_digitos: "list_all es_digito (str_nat n)"
proof (induction n rule: str_nat.induct)
  case (1 n)
  show ?case
  proof (cases "n < 10")
    case True
    then show ?thesis by (subst str_nat.simps) (simp add: es_digito_digit_char)
  next
    case False
    with 1 show ?thesis by (subst str_nat.simps) (simp add: es_digito_digit_char)
  qed
qed

lemma valor_decimal_snoc: "valor_decimal (s @ [c]) = 10 * valor_decimal s + valor_digito c"
  by (simp add: valor_decimal_def)

lemma valor_decimal_str_nat: "valor_decimal (str_nat n) = n"
proof (induction n rule: str_nat.induct)
  case (1 n)
  show ?case
  proof (cases "n < 10")
    case True
    then show ?thesis
      by (subst str_nat.simps) (simp add: valor_decimal_def valor_digito_digit_char)
  next
    case False
    with 1 have "valor_decimal (str_nat (n div 10)) = n div 10" by simp
    with False show ?thesis
      by (subst str_nat.simps) (simp add: valor_decimal_snoc valor_digito_digit_char)
  qed
qed

lemma hd_str_nat: "0 < n \<Longrightarrow> hd (str_nat n) \<noteq> CHR ''0''"
proof (induction n rule: str_nat.induct)
  case (1 n)
  show ?case
  proof (cases "n < 10")
    case True
    with 1(2) show ?thesis
      by (subst str_nat.simps) (simp add: digit_char_cero)
  next
    case False
    then have "0 < n div 10" by simp
    with 1 False have "hd (str_nat (n div 10)) \<noteq> CHR ''0''" by simp
    with False show ?thesis
      by (subst str_nat.simps) (simp add: str_nat_no_vacio)
  qed
qed

lemma str_int_decimal:
  "(0 \<le> i \<longrightarrow> str_int i \<noteq> [] \<and> list_all es_digito (str_int i)
       \<and> int (valor_decimal (str_int i)) = i \<and> (0 < i \<longrightarrow> hd (str_int i) \<noteq> CHR ''0''))
   \<and> (i < 0 \<longrightarrow> str_int i = CHR ''-'' # str_int (- i))
   \<and> str_int 0 = ''0''"
proof -
  have "str_nat 0 = ''0''"
    by (subst str_nat.simps) (simp add: digit_char_def)
  then show ?thesis
    by (auto simp: str_int_def str_nat_no_vacio str_nat_digitos valor_decimal_str_nat hd_str_nat)
qed

text \<open>
  Claim C4.  Over any product list the reorder generator returns the grouping of the
  specification: a line with the shortfall, the name and the cost price for exactly
  the products whose minimum stock minus quantity is positive, the shortfall being that
  difference and so positive in every line; the lines are grouped by supplier, the
  suppliers in the order in which they are first seen and each of them once; a supplier
  is a key exactly when one of its products falls short, so that no product falling short
  gives the empty mapping.  The message of a supplier is the percent-encoding of a text
  made of a header line that names the supplier, an empty line, and one line
  \<^verbatim>\<open>- <shortfall> <name>\<close> for each product: decoding the message gives that text back, and
  the message consists of letters, digits, \<^verbatim>\<open>_.-~/\<close> and \<^verbatim>\<open>%\<close> only.  The shortfall is
  printed as its decimal numeral: digits only, with the shortfall as their value and
  no leading zero, and a minus sign in front of the numeral of the opposite for a
  negative number.
\<close>

theorem generar_pedidos_grouped:
  "generar_pedidos ps =
     map (\<lambda>prov. (prov, map linea_de (filter (\<lambda>p. proveedor p = prov) (filter falta ps))))
       (primeros (map proveedor (filter falta ps)))
   \<and> distinct (map fst (generar_pedidos ps))
   \<and> (\<forall>prov. prov \<in> set (map fst (generar_pedidos ps))
         \<longleftrightarrow> (\<exists>p \<in> set ps. falta p \<and> proveedor p = prov))
   \<and> (\<forall>e \<in> set (generar_pedidos ps). snd e \<noteq> [] \<and> (\<forall>l \<in> set (snd e). 0 < faltante l))
   \<and> (filter falta ps = [] \<longrightarrow> generar_pedidos ps = [])
   \<and> generar_mensaje_whatsapp prov lista =
       quote (paquete @ '' *Pedido para '' @ prov @ ''* '' @ paquete @ [CHR 0x0A, CHR 0x0A]
         @ concat (map (\<lambda>l. ''- '' @ str_int (faltante l) @ '' '' @ nombre_linea l @ [CHR 0x0A]) lista))
   \<and> unquote (generar_mensaje_whatsapp prov lista) =
       paquete @ '' *Pedido para '' @ prov @ ''* '' @ paquete @ [CHR 0x0A, CHR 0x0A]
         @ concat (map (\<lambda>l. ''- '' @ str_int (faltante l) @ '' '' @ nombre_linea l @ [CHR 0x0A]) lista)
   \<and> set (generar_mensaje_whatsapp prov lista) \<subseteq> set seguros \<union> {CHR ''%''}
   \<and> (\<forall>i. (0 \<le> i \<longrightarrow> str_int i \<noteq> [] \<and> list_all es_digito (str_int i)
               \<and> int (valor_decimal (str_int i)) = i
               \<and> (0 < i \<longrightarrow> hd (str_int i) \<noteq> CHR ''0''))
           \<and> (i < 0 \<longrightarrow> str_int i = CHR ''-'' # str_int (- i)))
   \<and> str_int 0 = ''0''"
proof -
  have g: "generar_pedidos ps = agrupado ps"
    by (rule generar_pedidos_agrupado)
  have k: "map fst (generar_pedidos ps) = primeros (map proveedor (filter falta ps))"
    unfolding g by (rule keys_agrupado)
  have 1: "generar_pedidos ps =
     map (\<lambda>prov. (prov, map linea_de (filter (\<lambda>p. proveedor p = prov) (filter falta ps))))
       (primeros (map proveedor (filter falta ps)))"
    unfolding g agrupado_def ..
  have 2: "distinct (map fst (generar_pedidos ps))"
    unfolding k by (rule distinct_primeros)
  have "set (primeros (map proveedor (filter falta ps)))
      = {prov. \<exists>p \<in> set ps. falta p \<and> proveedor p = prov}"
    by (auto simp: set_primeros)
  then have 3: "\<forall>prov. prov \<in> set (map fst (generar_pedidos ps))
         \<longleftrightarrow> (\<exists>p \<in> set ps. falta p \<and> proveedor p = prov)"
    unfolding k by blast
  have pos: "\<forall>e \<in> set (generar_pedidos ps). snd e \<noteq> [] \<and> (\<forall>l \<in> set (snd e). 0 < faltante l)"
  proof
    fix e assume "e \<in> set (generar_pedidos ps)"
    then obtain prov where prov: "prov \<in> set (primeros (map proveedor (filter falta ps)))"
      and e: "snd e = map linea_de (filter (\<lambda>p. proveedor p = prov) (filter falta ps))"
      unfolding 1 by auto
    from prov obtain p where "p \<in> set (filter falta ps)" "proveedor p = prov"
      unfolding set_primeros by auto
    then have "filter (\<lambda>p. proveedor p = prov) (filter falta ps) \<noteq> []"
      unfolding filter_empty_conv by blast
    then have ne: "snd e \<noteq> []" unfolding e by simp
    have "\<forall>l \<in> set (snd e). 0 < faltante l"
      unfolding e by (auto simp: linea_de_def falta_def)
    with ne show "snd e \<noteq> [] \<and> (\<forall>l \<in> set (snd e). 0 < faltante l)" ..
  qed
  have 4: "filter falta ps = [] \<longrightarrow> generar_pedidos ps = []"
    by (simp add: g agrupado_def)
  have 5: "generar_mensaje_whatsapp prov lista =
       quote (paquete @ '' *Pedido para '' @ prov @ ''* '' @ paquete @ [CHR 0x0A, CHR 0x0A]
         @ concat (map (\<lambda>l. ''- '' @ str_int (faltante l) @ '' '' @ nombre_linea l @ [CHR 0x0A]) lista))"
    unfolding generar_mensaje_whatsapp_def mensaje_pedido_eq ..
  have 6: "unquote (generar_mensaje_whatsapp prov lista) =
       paquete @ '' *Pedido para '' @ prov @ ''* '' @ paquete @ [CHR 0x0A, CHR 0x0A]
         @ concat (map (\<lambda>l. ''- '' @ str_int (faltante l) @ '' '' @ nombre_linea l @ [CHR 0x0A]) lista)"
    unfolding 5 by (rule unquote_quote)
  have 7: "set (generar_mensaje_whatsapp prov lista) \<subseteq> set seguros \<union> {CHR ''%''}"
    unfolding generar_mensaje_whatsapp_def by (rule set_quote)
  have 8: "\<forall>i. (0 \<le> i \<longrightarrow> str_int i \<noteq> [] \<and> list_all es_digito (str_int i)
               \<and> int (valor_decimal (str_int i)) = i
               \<and> (0 < i \<longrightarrow> hd (str_int i) \<noteq> CHR ''0''))
           \<and> (i < 0 \<longrightarrow> str_int i = CHR ''-'' # str_int (- i))"
    using str_int_decimal by blast
  have 9: "str_int 0 = ''0''"
    using str_int_decimal [of 0] by blast
  from 1 2 3 pos 4 5 6 7 8 9 show ?thesis by blast
qed

theorem generar_pedidos_grouped_witness:
  "generar_pedidos [cable 1 0, foco, cable 2 5, cable 3 (- 2)] =
     [(''acme'', [\<lparr>faltante = 1, nombre_linea = ''cable'', costo_linea = 10\<rparr>,
                 \<lparr>faltante = 3, nombre_linea = ''cable'', costo_linea = 10\<rparr>]),
      (''Luz SA'', [\<lparr>faltante = 6, nombre_linea = ''Foco LED'', costo_linea = 100\<rparr>])]
   \<and> filter falta [cable 2 5] = [] \<and> generar_pedidos [cable 2 5] = []
   \<and> unquote (generar_mensaje_whatsapp ''Luz SA''
         [\<lparr>faltante = 6, nombre_linea = ''Foco LED'', costo_linea = 100\<rparr>,
          \<lparr>faltante = 120, nombre_linea = ''Tubo'', costo_linea = 3\<rparr>]) =
       paquete @ '' *Pedido para Luz SA* '' @ paquete @ [CHR 0x0A, CHR 0x0A]
         @ ''- 6 Foco LED'' @ [CHR 0x0A] @ ''- 120 Tubo'' @ [CHR 0x0A]
   \<and> generar_mensaje_whatsapp ''Luz SA''
         [\<lparr>faltante = 120, nombre_linea = ''Tubo'', costo_linea = 3\<rparr>] =
       ''%F0%9F%93%A6%20%2APedido%20para%20Luz%20SA%2A%20%F0%9F%93%A6%0A%0A-%20120%20Tubo%0A''
   \<and> str_int 120 = ''120'' \<and> str_int (- 7) = ''-7''"
proof -
  note t = generar_pedidos_grouped [of "[cable 1 0, foco, cable 2 5, cable 3 (- 2)]" "''Luz SA''"
      "[\<lparr>faltante = 6, nombre_linea = ''Foco LED'', costo_linea = 100\<rparr>,
        \<lparr>faltante = 120, nombre_linea = ''Tubo'', costo_linea = 3\<rparr>]"]
  note u = generar_pedidos_grouped [of "[cable 2 5]" "''Luz SA''"
      "[\<lparr>faltante = 120, nombre_linea = ''Tubo'', costo_linea = 3\<rparr>]"]
  have s: "str_int 6 = ''6''" "str_int 120 = ''120''" "str_int (- 7) = ''-7''"
    by (simp_all add: str_int_def str_nat.simps [of 6] str_nat.simps [of 120]
        str_nat.simps [of 12] str_nat.simps [of 1] str_nat.simps [of "Suc 0"] str_nat.simps [of 7] digit_char_def)
  have f: "filter falta [cable 1 0, foco, cable 2 5, cable 3 (- 2)] = [cable 1 0, foco, cable 3 (- 2)]"
    by (simp add: falta_def cable_def foco_def)
  have a: "generar_pedidos [cable 1 0, foco, cable 2 5, cable 3 (- 2)] =
     [(''acme'', [\<lparr>faltante = 1, nombre_linea = ''cable'', costo_linea = 10\<rparr>,
                 \<lparr>faltante = 3, nombre_linea = ''cable'', costo_linea = 10\<rparr>]),
      (''Luz SA'', [\<lparr>faltante = 6, nombre_linea = ''Foco LED'', costo_linea = 100\<rparr>])]"
    unfolding t [THEN conjunct1] f
    by (simp add: linea_de_def cable_def foco_def)
  have b: "filter falta [cable 2 5] = []"
    by (simp add: falta_def cable_def)
  have c: "generar_pedidos [cable 2 5] = []"
    using u b by blast
  have d: "unquote (generar_mensaje_whatsapp ''Luz SA''
         [\<lparr>faltante = 6, nombre_linea = ''Foco LED'', costo_linea = 100\<rparr>,
          \<lparr>faltante = 120, nombre_linea = ''Tubo'', costo_linea = 3\<rparr>]) =
       paquete @ '' *Pedido para Luz SA* '' @ paquete @ [CHR 0x0A, CHR 0x0A]
         @ ''- 6 Foco LED'' @ [CHR 0x0A] @ ''- 120 Tubo'' @ [CHR 0x0A]"
    unfolding t [THEN conjunct2, THEN conjunct2, THEN conjunct2, THEN conjunct2,
        THEN conjunct2, THEN conjunct2, THEN conjunct1]
    by (simp add: s)
  have e: "generar_mensaje_whatsapp ''Luz SA''
         [\<lparr>faltante = 120, nombre_linea = ''Tubo'', costo_linea = 3\<rparr>] =
       ''%F0%9F%93%A6%20%2APedido%20para%20Luz%20SA%2A%20%F0%9F%93%A6%0A%0A-%20120%20Tubo%0A''"
    unfolding u [THEN conjunct2, THEN conjunct2, THEN conjunct2, THEN conjunct2,
        THEN conjunct2, THEN conjunct1]
    by (simp add: s quote_def quote_byte_def seguros_def paquete_def hex_char_def)
  from a b c d e s show ?thesis by blast
qed

subsection \<open>Password change\<close>

lemma find_usuario_map:
  "find (\<lambda>(u, h). u = usuario) (map (\<lambda>(u, h). if u = usuario then (u, g) else (u, h)) us)
     = map_option (\<lambda>(u, h). (u, g)) (find (\<lambda>(u, h). u = usuario) us)"
  by (induction us) auto

lemma cambiar_password_cases:
  assumes "f ''actual'' = Some actual" "f ''nueva'' = Some nueva" "f ''confirmar'' = Some confirmar"
  shows "cambiar_password chk gen (Some usuario) POST f us =
     (if nueva \<noteq> confirmar then Inr (us, Redirigir ''cambiar_password'' (Some NoCoinciden))
      else if \<not> verifica chk us usuario actual
      then Inr (us, Redirigir ''cambiar_password'' (Some ActualIncorrecta))
      else Inr (map (\<lambda>(u, h). if u = usuario then (u, gen nueva) else (u, h)) us,
                Redirigir ''inventario'' (Some PasswordCambiada)))"
  using assms
  by (auto simp: cambiar_password_def campo_def entonces_def verifica_def hash_de_def
      split: option.splits)

text \<open>
  Claim C9.  When the three fields of the form are submitted, the password change always
  answers, and it succeeds exactly when there is a session identity, the current password
  verifies against the stored hash of that user and the new password equals its
  confirmation; after a success the stored hash of the user is the hash of the new
  password.  With a session, a confirmation that differs is rejected with its own
  message, and a current password that does not verify is rejected with another
  message; in both cases the table of users is unchanged.  Whenever the change does not
  succeed the table is unchanged, so every password verifies afterwards exactly as it did
  before.
\<close>

theorem cambiar_password_guarded:
  assumes "f ''actual'' = Some actual" "f ''nueva'' = Some nueva" "f ''confirmar'' = Some confirmar"
  shows "\<exists>us' r. cambiar_password chk gen ses POST f us = Inr (us', r)
    \<and> (r = Redirigir ''inventario'' (Some PasswordCambiada)
         \<longleftrightarrow> (\<exists>usuario. ses = Some usuario \<and> verifica chk us usuario actual \<and> nueva = confirmar))
    \<and> (\<forall>usuario. ses = Some usuario \<and> r = Redirigir ''inventario'' (Some PasswordCambiada)
         \<longrightarrow> hash_de us' usuario = Some (gen nueva))
    \<and> (ses \<noteq> None \<and> nueva \<noteq> confirmar
         \<longrightarrow> r = Redirigir ''cambiar_password'' (Some NoCoinciden) \<and> us' = us)
    \<and> (\<forall>usuario. ses = Some usuario \<and> nueva = confirmar \<and> \<not> verifica chk us usuario actual
         \<longrightarrow> r = Redirigir ''cambiar_password'' (Some ActualIncorrecta) \<and> us' = us)
    \<and> (r \<noteq> Redirigir ''inventario'' (Some PasswordCambiada)
         \<longrightarrow> us' = us \<and> (\<forall>usuario p. verifica chk us' usuario p = verifica chk us usuario p))"
proof (cases ses)
  case None
  then show ?thesis by (simp add: cambiar_password_def)
next
  case (Some usuario)
  have "verifica chk us usuario actual \<Longrightarrow>
      hash_de (map (\<lambda>(u, h). if u = usuario then (u, gen nueva) else (u, h)) us) usuario
        = Some (gen nueva)"
    by (auto simp: verifica_def hash_de_def find_usuario_map split: option.splits)
  then show ?thesis
    unfolding Some cambiar_password_cases [OF assms] by auto
qed

theorem cambiar_password_guarded_witness:
  "cambiar_password (\<lambda>h p. h = CHR ''#'' # p) (\<lambda>p. CHR ''#'' # p) (Some ''admin'') POST
     [''actual'' \<mapsto> ''admin123'', ''nueva'' \<mapsto> ''secreto'', ''confirmar'' \<mapsto> ''secret0'']
     [(''admin'', ''#admin123'')]
   = Inr ([(''admin'', ''#admin123'')], Redirigir ''cambiar_password'' (Some NoCoinciden))
   \<and> verifica (\<lambda>h p. h = CHR ''#'' # p) [(''admin'', ''#admin123'')] ''admin'' ''admin123''"
  using cambiar_password_guarded [of
      "[''actual'' \<mapsto> ''admin123'', ''nueva'' \<mapsto> ''secreto'', ''confirmar'' \<mapsto> ''secret0'']"
      "''admin123''" "''secreto''" "''secret0''" "\<lambda>h p. h = CHR ''#'' # p" "\<lambda>p. CHR ''#'' # p"
      "Some ''admin''" "[(''admin'', ''#admin123'')]"]
  by (auto simp: verifica_def hash_de_def)

subsection \<open>The price normalizer\<close>




lemma filter_dropWhile:
  "(\<And>c. Q c \<Longrightarrow> \<not> P c) \<Longrightarrow> filter P (dropWhile Q xs) = filter P xs"
  by (induction xs) auto

lemma espacio_no_permitido: "es_espacio c \<Longrightarrow> \<not> (es_digito c \<or> c = CHR '','' \<or> c = CHR ''.'')"
  by (auto simp: es_espacio_def es_digito_def)

lemma re_sub_strip: "re_sub (strip s) = re_sub s"
proof -
  let ?P = "\<lambda>c. es_digito c \<or> c = CHR '','' \<or> c = CHR ''.''"
  have "filter ?P (rev (dropWhile es_espacio (rev (dropWhile es_espacio s))))
      = rev (filter ?P (dropWhile es_espacio (rev (dropWhile es_espacio s))))"
    by (simp add: rev_filter)
  also have "\<dots> = rev (filter ?P (rev (dropWhile es_espacio s)))"
    by (simp only: filter_dropWhile [of es_espacio ?P, OF espacio_no_permitido])
  also have "\<dots> = filter ?P (dropWhile es_espacio s)"
    by (simp add: rev_filter)
  also have "\<dots> = filter ?P s"
    by (simp only: filter_dropWhile [of es_espacio ?P, OF espacio_no_permitido])
  finally show ?thesis by (simp add: re_sub_def strip_def)
qed

lemma split_py_nonempty: "split_py c s \<noteq> []"
  by (induction s) auto

lemma split_py_notin: "c \<notin> set b \<Longrightarrow> split_py c b = [b]"
  by (induction b) auto

lemma split_py_append: "c \<notin> set b \<Longrightarrow> split_py c (a @ c # b) = split_py c a @ [b]"
proof (induction a)
  case Nil
  then show ?case by (simp add: split_py_notin)
next
  case (Cons x a)
  then show ?case using split_py_nonempty [of c a] by (cases "split_py c a") auto
qed

lemma concat_split_py: "concat (split_py c a) = filter (\<lambda>x. x \<noteq> c) a"
proof (induction a)
  case Nil
  show ?case by simp
next
  case (Cons x a)
  then show ?case using split_py_nonempty [of c a] by (cases "split_py c a") auto
qed

lemma ultimo_punto:
  assumes "c \<notin> set b"
  shows "rev (takeWhile (\<lambda>x. x \<noteq> c) (rev (a @ c # b))) = b"
    and "rev (tl (dropWhile (\<lambda>x. x \<noteq> c) (rev (a @ c # b)))) = a"
proof -
  have r: "rev (a @ c # b) = rev b @ c # rev a" by simp
  have tw: "takeWhile (\<lambda>x. x \<noteq> c) (rev b @ c # rev a)
      = rev b @ takeWhile (\<lambda>x. x \<noteq> c) (c # rev a)"
    by (rule takeWhile_append2) (use assms in auto)
  have dw: "dropWhile (\<lambda>x. x \<noteq> c) (rev b @ c # rev a)
      = dropWhile (\<lambda>x. x \<noteq> c) (c # rev a)"
    by (rule dropWhile_append2) (use assms in auto)
  show "rev (takeWhile (\<lambda>x. x \<noteq> c) (rev (a @ c # b))) = b"
    unfolding r tw by simp
  show "rev (tl (dropWhile (\<lambda>x. x \<noteq> c) (rev (a @ c # b)))) = a"
    unfolding r dw by simp
qed

lemma unir_segmentos:
  assumes "c \<in> set t"
  shows "concat (butlast (split_py c t)) @ [c] @ last (split_py c t)
     = filter (\<lambda>x. x \<noteq> c) (rev (tl (dropWhile (\<lambda>x. x \<noteq> c) (rev t)))) @ [c]
       @ rev (takeWhile (\<lambda>x. x \<noteq> c) (rev t))"
proof -
  from assms obtain a b where t: "t = a @ c # b" and b: "c \<notin> set b"
    using split_list_last [of c t] by blast
  show ?thesis
    unfolding t ultimo_punto [OF b] split_py_append [OF b]
    by (simp add: concat_split_py)
qed

lemma replace_vacio: "replace c [] s = filter (\<lambda>x. x \<noteq> c) s"
  by (induction s) (simp_all add: replace_def)

lemma replace_uno: "replace c [d] s = map (\<lambda>x. if x = c then d else x) s"
  by (induction s) (simp_all add: replace_def)

lemma count_list_pos: "0 < count_list xs x \<Longrightarrow> x \<in> set xs"
  by (induction xs) (auto split: if_splits)

lemma texto_precio_eq:
  "texto_precio s =
     (let t = filter (\<lambda>c. es_digito c \<or> c = CHR '','' \<or> c = CHR ''.'') s;
          t = (if 1 < count_list t (CHR ''.'')
               then filter (\<lambda>c. c \<noteq> CHR ''.'') (antes_ultimo_punto t) @ ''.''
                    @ despues_ultimo_punto t
               else t)
      in if CHR '','' \<in> set t
         then map (\<lambda>c. if c = CHR '','' then CHR ''.'' else c) (filter (\<lambda>c. c \<noteq> CHR ''.'') t)
         else t)"
proof -
  define t where "t = re_sub s"
  have u: "concat (butlast (split_py (CHR ''.'') t)) @ ''.'' @ last (split_py (CHR ''.'') t)
      = filter (\<lambda>c. c \<noteq> CHR ''.'') (antes_ultimo_punto t) @ ''.'' @ despues_ultimo_punto t"
    if "1 < count_list t (CHR ''.'')"
  proof -
    from that have "CHR ''.'' \<in> set t" by (intro count_list_pos) simp
    from unir_segmentos [OF this] show ?thesis
      by (simp add: antes_ultimo_punto_def despues_ultimo_punto_def)
  qed
  show ?thesis
    unfolding texto_precio_def Let_def re_sub_strip t_def [symmetric]
      re_sub_def [of s, symmetric] replace_vacio replace_uno
    using u by simp
qed

lemma dropWhile_ninguno: "\<forall>c \<in> set t. \<not> Q c \<Longrightarrow> dropWhile Q t = t"
  by (cases t) auto

lemma strip_id: "\<forall>c \<in> set t. \<not> es_espacio c \<Longrightarrow> strip t = t"
  by (simp add: strip_def dropWhile_ninguno)

lemma signo_id: "\<forall>c \<in> set t. c \<noteq> CHR ''-'' \<and> c \<noteq> CHR ''+'' \<Longrightarrow> signo t = (1, t)"
  by (cases t) auto

lemma digitpart_iff:
  "CHR ''_'' \<notin> set s \<Longrightarrow> digitpart s \<longleftrightarrow> s \<noteq> [] \<and> list_all es_digito s"
  by (induction s rule: digitpart.induct) auto

lemma valor_digitos_decimal: "CHR ''_'' \<notin> set s \<Longrightarrow> valor_digitos s = valor_decimal s"
proof -
  assume "CHR ''_'' \<notin> set s"
  then have "filter (\<lambda>c. c \<noteq> CHR ''_'') s = s"
    by (simp add: filter_id_conv) blast
  then show ?thesis by (simp add: valor_digitos_def valor_decimal_def)
qed

lemma length_filter_todos: "list_all P s \<Longrightarrow> length (filter P s) = length s"
  by (induction s) auto

lemma set_tl_dropWhile: "set (tl (dropWhile P xs)) \<subseteq> set xs"
  by (induction xs) auto

lemma numero_decimal:
  assumes "CHR ''_'' \<notin> set t"
  shows "numero t = decimal t"
proof -
  define a where "a = takeWhile (\<lambda>c. c \<noteq> CHR ''.'') t"
  define r where "r = dropWhile (\<lambda>c. c \<noteq> CHR ''.'') t"
  have "set a \<subseteq> set t" unfolding a_def by (auto dest: set_takeWhileD)
  with assms have a: "CHR ''_'' \<notin> set a" by blast
  have "set (tl r) \<subseteq> set t"
    unfolding r_def by (rule set_tl_dropWhile)
  with assms have b: "CHR ''_'' \<notin> set (tl r)" by blast
  show ?thesis
    unfolding numero_def decimal_def Let_def a_def [symmetric] r_def [symmetric]
    by (auto simp: digitpart_iff [OF a] digitpart_iff [OF b] valor_digitos_decimal [OF a]
        valor_digitos_decimal [OF b] length_filter_todos valor_decimal_def)
qed

lemma numerico_char:
  "es_digito c \<or> c = CHR ''.'' \<Longrightarrow>
     \<not> es_espacio c \<and> c \<noteq> CHR ''-'' \<and> c \<noteq> CHR ''+'' \<and> c \<noteq> CHR ''e'' \<and> c \<noteq> CHR ''E''
     \<and> c \<noteq> CHR ''_''"
  by (auto simp: es_digito_def es_espacio_def)

lemma py_float_decimal:
  assumes "\<forall>c \<in> set t. es_digito c \<or> c = CHR ''.''"
  shows "py_float t = (case decimal t of None \<Rightarrow> Inl ValueError | Some x \<Rightarrow> Inr x)"
proof -
  have ne: "\<forall>c \<in> set t. \<not> es_espacio c" and ns: "\<forall>c \<in> set t. c \<noteq> CHR ''-'' \<and> c \<noteq> CHR ''+''"
    and nx: "\<forall>c \<in> set t. c \<noteq> CHR ''e'' \<and> c \<noteq> CHR ''E''" and nu: "CHR ''_'' \<notin> set t"
    using assms numerico_char by blast+
  have m: "takeWhile (\<lambda>c. c \<noteq> CHR ''e'' \<and> c \<noteq> CHR ''E'') t = t"
    using nx by (simp add: takeWhile_eq_all_conv)
  have e: "dropWhile (\<lambda>c. c \<noteq> CHR ''e'' \<and> c \<noteq> CHR ''E'') t = []"
    using nx by simp
  show ?thesis
    unfolding py_float_def strip_id [OF ne] signo_id [OF ns]
    by (simp add: m e exponente_def numero_decimal [OF nu] split: option.splits)
qed

lemma set_antes_ultimo_punto: "set (antes_ultimo_punto t) \<subseteq> set t"
proof -
  have "set (tl (dropWhile (\<lambda>c. c \<noteq> CHR ''.'') (rev t))) \<subseteq> set (rev t)"
    by (rule set_tl_dropWhile)
  then show ?thesis by (simp add: antes_ultimo_punto_def)
qed

lemma set_despues_ultimo_punto: "set (despues_ultimo_punto t) \<subseteq> set t"
  by (auto simp: despues_ultimo_punto_def dest: set_takeWhileD)

lemma texto_precio_numerico: "\<forall>c \<in> set (texto_precio s). es_digito c \<or> c = CHR ''.''"
proof -
  define t where "t = filter (\<lambda>c. es_digito c \<or> c = CHR '','' \<or> c = CHR ''.'') s"
  define t' where "t' = (if 1 < count_list t (CHR ''.'')
               then filter (\<lambda>c. c \<noteq> CHR ''.'') (antes_ultimo_punto t) @ ''.''
                    @ despues_ultimo_punto t
               else t)"
  have t: "\<forall>c \<in> set t. es_digito c \<or> c = CHR '','' \<or> c = CHR ''.''"
    by (simp add: t_def)
  have "set t' \<subseteq> set t \<union> {CHR ''.''}"
    using set_antes_ultimo_punto [of t] set_despues_ultimo_punto [of t]
    by (auto simp: t'_def)
  with t have t': "\<forall>c \<in> set t'. es_digito c \<or> c = CHR '','' \<or> c = CHR ''.''"
    by blast
  have "texto_precio s = (if CHR '','' \<in> set t'
         then map (\<lambda>c. if c = CHR '','' then CHR ''.'' else c) (filter (\<lambda>c. c \<noteq> CHR ''.'') t')
         else t')"
    unfolding texto_precio_eq Let_def t_def [symmetric] t'_def [symmetric] ..
  with t' show ?thesis by auto
qed

lemma normalizar_precio_spec: "normalizar_precio s = Inr (normalizar_spec s)"
proof -
  have "normalizar_spec s = (if s = [] then 0
      else case decimal (texto_precio s) of None \<Rightarrow> 0 | Some x \<Rightarrow> x)"
    unfolding normalizar_spec_def texto_precio_eq Let_def ..
  then show ?thesis
    by (simp add: normalizar_precio_def py_float_decimal [OF texto_precio_numerico]
        split: option.splits)
qed

lemmas evaluar_precio = normalizar_precio_def texto_precio_def py_float_def replace_def strip_def
  es_espacio_def es_digito_def re_sub_def numero_def exponente_def valor_digitos_def
  valor_digito_def Let_def

text \<open>
  Claim C1.  For every text the price normalizer returns a number and never raises, and
  the number is the one that the contract of the specification describes: 0 for the
  empty text; otherwise every character but digits, comma and period is dropped; with
  more than one period the segments before the last period are joined and the last
  segment is the fractional part; with a comma the periods are removed and the comma
  becomes the decimal point; and the text is read as a decimal, 0 where it is not one.
  In particular "47.473,63" and "47473.63" give 47473.63, and the empty text and "abc"
  give 0.
\<close>

theorem normalizar_precio_contract:
  "normalizar_precio s = Inr (normalizar_spec s)
   \<and> normalizar_precio ''47.473,63'' = Inr (4747363 / 100)
   \<and> normalizar_precio ''47473.63'' = Inr (4747363 / 100)
   \<and> normalizar_precio [] = Inr 0
   \<and> normalizar_precio ''abc'' = Inr 0"
proof -
  have 1: "normalizar_precio ''47.473,63'' = Inr (4747363 / 100)"
    by (simp add: evaluar_precio)
  have 2: "normalizar_precio ''47473.63'' = Inr (4747363 / 100)"
    by (simp add: evaluar_precio)
  have 3: "normalizar_precio [] = Inr 0"
    by (simp add: normalizar_precio_def)
  have 4: "normalizar_precio ''abc'' = Inr 0"
    by (simp add: evaluar_precio)
  from normalizar_precio_spec 1 2 3 4 show ?thesis by blast
qed

theorem normalizar_precio_contract_witness:
  "normalizar_precio ''$ 1.234.567,89'' = Inr (123456789 / 100)
   \<and> normalizar_spec ''$ 1.234.567,89'' = 123456789 / 100"
proof -
  have "normalizar_spec ''$ 1.234.567,89'' = 123456789 / 100"
    by (simp add: normalizar_spec_def antes_ultimo_punto_def despues_ultimo_punto_def
        decimal_def valor_decimal_def valor_digito_def es_digito_def Let_def)
  with normalizar_precio_contract [of "''$ 1.234.567,89''"] show ?thesis by simp
qed

subsection \<open>Create and edit\<close>







end
